theory Spec2Isabelle
  imports Main
begin

section \<open>JSON values and the Python operations applied to them\<close>

text \<open>
  The program (\<^verbatim>\<open>backend/app.py\<close>) handles the bodies of upstream HTTP responses as
  decoded JSON: \<^verbatim>\<open>response.json()\<close> yields dicts, lists, strings, numbers, booleans and
  \<^verbatim>\<open>None\<close>. A dict is given by its items (\<open>map_of\<close> looks a key up); numbers are the
  integers. Python's \<^verbatim>\<open>None\<close> is \<open>JNull\<close>.
\<close>

datatype json =
    JNull
  | JBool bool
  | JNum int
  | JStr string
  | JArr "json list"
  | JObj "(string \<times> json) list"

text \<open>The exceptions that the operations below raise.\<close>

datatype py_error =
    KeyError | AttributeError | TypeError | JSONDecodeError | OverflowError | InvalidHeader

text \<open>\<^verbatim>\<open>d.get(k, default)\<close>: only a dict has the method.\<close>

fun dict_get :: "json \<Rightarrow> string \<Rightarrow> json \<Rightarrow> py_error + json" where
  "dict_get (JObj kvs) k dflt = Inr (case map_of kvs k of None \<Rightarrow> dflt | Some v \<Rightarrow> v)"
| "dict_get _ k dflt = Inl AttributeError"

text \<open>\<^verbatim>\<open>d[k]\<close> with a string key: a missing key raises, and so does every non-dict.\<close>

fun subscript :: "json \<Rightarrow> string \<Rightarrow> py_error + json" where
  "subscript (JObj kvs) k = (case map_of kvs k of None \<Rightarrow> Inl KeyError | Some v \<Rightarrow> Inr v)"
| "subscript _ k = Inl TypeError"

text \<open>\<^verbatim>\<open>for x in v\<close>: a list gives its elements, a dict its keys, a string its characters.\<close>

fun iterate :: "json \<Rightarrow> py_error + json list" where
  "iterate (JArr xs) = Inr xs"
| "iterate (JObj kvs) = Inr (map (\<lambda>kv. JStr (fst kv)) kvs)"
| "iterate (JStr s) = Inr (map (\<lambda>c. JStr [c]) s)"
| "iterate _ = Inl TypeError"

fun starts_with :: "string \<Rightarrow> string \<Rightarrow> bool" where
  "starts_with [] s = True"
| "starts_with (p # ps) [] = False"
| "starts_with (p # ps) (c # cs) = (p = c \<and> starts_with ps cs)"

fun str_contains :: "string \<Rightarrow> string \<Rightarrow> bool" where
  "str_contains p [] = (p = [])"
| "str_contains p (c # cs) = (starts_with p (c # cs) \<or> str_contains p cs)"

text \<open>\<^verbatim>\<open>k in v\<close> for a string \<open>k\<close>: key of a dict, element of a list, substring of a string.\<close>

fun contains :: "string \<Rightarrow> json \<Rightarrow> py_error + bool" where
  "contains k (JObj kvs) = Inr (k \<in> set (map fst kvs))"
| "contains k (JArr xs) = Inr (JStr k \<in> set xs)"
| "contains k (JStr s) = Inr (str_contains k s)"
| "contains k _ = Inl TypeError"

text \<open>Truth value of a value in a condition (\<^verbatim>\<open>if v:\<close>, \<^verbatim>\<open>if not v:\<close>).\<close>

fun truthy :: "json \<Rightarrow> bool" where
  "truthy JNull = False"
| "truthy (JBool b) = b"
| "truthy (JNum n) = (n \<noteq> 0)"
| "truthy (JStr s) = (s \<noteq> [])"
| "truthy (JArr xs) = (xs \<noteq> [])"
| "truthy (JObj kvs) = (kvs \<noteq> [])"

subsection \<open>Time\<close>

text \<open>
  A \<^verbatim>\<open>datetime\<close> is the number of seconds since 1970-01-01 00:00:00; the type ranges
  from year 1 to year 9999. \<^verbatim>\<open>timedelta(seconds=v)\<close> accepts a number (a boolean counts
  as 0 or 1) and \<^verbatim>\<open>now + timedelta(seconds=v)\<close> raises \<^verbatim>\<open>OverflowError\<close> outside the
  range of \<^verbatim>\<open>datetime\<close>.
\<close>

definition datetime_min :: int where
  "datetime_min = - 62135596800"

definition datetime_max :: int where
  "datetime_max = 253402300799"

fun timedelta_seconds :: "json \<Rightarrow> py_error + int" where
  "timedelta_seconds (JNum n) = Inr n"
| "timedelta_seconds (JBool b) = Inr (if b then 1 else 0)"
| "timedelta_seconds _ = Inl TypeError"

definition datetime_plus_seconds :: "int \<Rightarrow> json \<Rightarrow> py_error + int" where
  "datetime_plus_seconds now v =
     (case timedelta_seconds v of
        Inl e \<Rightarrow> Inl e
      | Inr n \<Rightarrow>
          if datetime_min \<le> now + n \<and> now + n \<le> datetime_max then Inr (now + n)
          else Inl OverflowError)"

section \<open>The upstream platform\<close>

text \<open>
  Every network call of the program is one of the requests below; the values that the
  program interpolates into the URL, the headers or the form are the arguments. The
  upstream is a function from requests to responses: a status code and a body, where
  the body \<open>None\<close> is a text that is not JSON (\<^verbatim>\<open>response.json()\<close> raises). The client
  id and secret, the query text and the content type are the same in every call.
\<close>

datatype request =
    PostToken json  \<comment> \<open>refresh-token grant: the refresh token\<close>
  | PostGraphQL json string  \<comment> \<open>access token, company id\<close>
  | GetCompanyDeals json string  \<comment> \<open>access token, company id\<close>
  | GetDeal json json  \<comment> \<open>access token, deal id\<close>
  | GetDealLineItems json json  \<comment> \<open>access token, deal id\<close>
  | GetLineItem json json  \<comment> \<open>access token, line item id\<close>

record response =
  status_code :: int
  body :: "json option"

type_synonym upstream = "request \<Rightarrow> response"

definition response_json :: "response \<Rightarrow> py_error + json" where
  "response_json r = (case body r of None \<Rightarrow> Inl JSONDecodeError | Some j \<Rightarrow> Inr j)"

text \<open>
  The calls of the retrieval carry the header \<^verbatim>\<open>Authorization: Bearer {access_token}\<close>.
  The HTTP library refuses a header value with a carriage return or a line feed: it raises
  (\<^verbatim>\<open>InvalidHeader\<close>, a \<^verbatim>\<open>ValueError\<close>) and sends nothing. Only a string token can
  bring such a character into the header: the text of any other value has none.
\<close>

definition header_value_ok :: "json \<Rightarrow> bool" where
  "header_value_ok tok =
     (case tok of
        JStr s \<Rightarrow> CHR 0x0D \<notin> set s \<and> CHR 0x0A \<notin> set s
      | _ \<Rightarrow> True)"

definition authorized_call :: "upstream \<Rightarrow> json \<Rightarrow> request \<Rightarrow> py_error + response" where
  "authorized_call http tok req =
     (if header_value_ok tok then Inr (http req) else Inl InvalidHeader)"

section \<open>Credential store and token lifecycle\<close>

text \<open>
  \<^verbatim>\<open>token_storage\<close> maps a portal id to a dict that always has the four keys below (the
  two places that write it build all four).
\<close>

record token_data =
  access_token :: json
  refresh_token :: json
  expires_at :: int
  scope :: json

type_synonym 'p token_storage = "'p \<Rightarrow> token_data option"

text \<open>
  The dict that \<^verbatim>\<open>refresh_access_token\<close> stores (lines 73-78), built from the decoded
  response in the order in which Python evaluates the entries.
\<close>

definition refreshed_record :: "int \<Rightarrow> json \<Rightarrow> json \<Rightarrow> py_error + token_data" where
  "refreshed_record now token_json old_refresh =
     (case subscript token_json ''access_token'' of
        Inl e \<Rightarrow> Inl e
      | Inr at \<Rightarrow>
     (case dict_get token_json ''refresh_token'' old_refresh of
        Inl e \<Rightarrow> Inl e
      | Inr rt \<Rightarrow>
     (case subscript token_json ''expires_in'' of
        Inl e \<Rightarrow> Inl e
      | Inr ei \<Rightarrow>
     (case datetime_plus_seconds now ei of
        Inl e \<Rightarrow> Inl e
      | Inr ea \<Rightarrow>
     (case dict_get token_json ''scope'' (JStr '''') of
        Inl e \<Rightarrow> Inl e
      | Inr sc \<Rightarrow>
          Inr \<lparr>access_token = at, refresh_token = rt, expires_at = ea, scope = sc\<rparr>)))))"

text \<open>
  \<^verbatim>\<open>refresh_access_token(portal_id, refresh_token)\<close>. \<open>now\<close> is the clock as read at
  line 76. The result is the returned value or the raised exception, the store afterwards
  and the network calls made, in order.
\<close>

definition refresh_access_token ::
  "upstream \<Rightarrow> int \<Rightarrow> 'p token_storage \<Rightarrow> 'p \<Rightarrow> json
     \<Rightarrow> (py_error + json) \<times> 'p token_storage \<times> request list" where
  "refresh_access_token http now storage portal_id refresh_tok =
     (let resp = http (PostToken refresh_tok) in
      if status_code resp = 200 then
        (case response_json resp of
           Inl e \<Rightarrow> (Inl e, storage, [PostToken refresh_tok])
         | Inr token_json \<Rightarrow>
             (case refreshed_record now token_json refresh_tok of
                Inl e \<Rightarrow> (Inl e, storage, [PostToken refresh_tok])
              | Inr td \<Rightarrow>
                  (Inr (access_token td), storage(portal_id \<mapsto> td), [PostToken refresh_tok])))
      else (Inr JNull, storage, [PostToken refresh_tok]))"

text \<open>
  \<^verbatim>\<open>get_hubspot_access_token(portal_id)\<close>. \<open>now\<close> is the clock as read at line 51 and
  \<open>now'\<close> the clock as read by the refresh, if there is one.
\<close>

definition get_hubspot_access_token ::
  "upstream \<Rightarrow> int \<Rightarrow> int \<Rightarrow> 'p token_storage \<Rightarrow> 'p
     \<Rightarrow> (py_error + json) \<times> 'p token_storage \<times> request list" where
  "get_hubspot_access_token http now now' storage portal_id =
     (case storage portal_id of
        None \<Rightarrow> (Inr JNull, storage, [])
      | Some td \<Rightarrow>
          if now > expires_at td then
            (if truthy (refresh_token td)
             then refresh_access_token http now' storage portal_id (refresh_token td)
             else (Inr JNull, storage, []))
          else (Inr (access_token td), storage, []))"

section \<open>Line-item retrieval\<close>

text \<open>The dict that both strategies append for one line item.\<close>

record line_item =
  deal_name :: json
  line_item_name :: json
  quantity :: json
  unit_price :: json
  amount :: json

text \<open>\<^verbatim>\<open>r.get(k, default)\<close> on the result of an earlier step of a chain of \<^verbatim>\<open>.get\<close> calls.\<close>

definition get_then :: "py_error + json \<Rightarrow> string \<Rightarrow> json \<Rightarrow> py_error + json" where
  "get_then r k dflt = (case r of Inl e \<Rightarrow> Inl e | Inr j \<Rightarrow> dict_get j k dflt)"

subsection \<open>Structured-query strategy\<close>

text \<open>Lines 250-257: the body of the inner loop, for one nested line item.\<close>

definition graphql_record :: "json \<Rightarrow> json \<Rightarrow> py_error + line_item" where
  "graphql_record dname li =
     (case dict_get li ''properties'' (JObj []) of
        Inl e \<Rightarrow> Inl e
      | Inr props \<Rightarrow>
     (case dict_get props ''name'' (JStr ''Unknown Item'') of
        Inl e \<Rightarrow> Inl e
      | Inr n \<Rightarrow>
     (case dict_get props ''quantity'' (JNum 0) of
        Inl e \<Rightarrow> Inl e
      | Inr q \<Rightarrow>
     (case dict_get props ''price'' (JNum 0) of
        Inl e \<Rightarrow> Inl e
      | Inr p \<Rightarrow>
     (case dict_get props ''amount'' (JNum 0) of
        Inl e \<Rightarrow> Inl e
      | Inr a \<Rightarrow>
          Inr \<lparr>deal_name = dname, line_item_name = n, quantity = q,
               unit_price = p, amount = a\<rparr>)))))"

text \<open>Lines 249-257: the inner loop appends to the list \<open>items\<close> built so far.\<close>

fun graphql_line_items_loop ::
  "json \<Rightarrow> json list \<Rightarrow> line_item list \<Rightarrow> py_error + line_item list" where
  "graphql_line_items_loop dname [] items = Inr items"
| "graphql_line_items_loop dname (li # lis) items =
     (case graphql_record dname li of
        Inl e \<Rightarrow> Inl e
      | Inr r \<Rightarrow> graphql_line_items_loop dname lis (items @ [r]))"

text \<open>Lines 246-257: the body of the outer loop, for one deal.\<close>

definition graphql_deal :: "json \<Rightarrow> line_item list \<Rightarrow> py_error + line_item list" where
  "graphql_deal deal items =
     (case get_then (dict_get deal ''properties'' (JObj [])) ''dealname'' (JStr ''Unknown Deal'') of
        Inl e \<Rightarrow> Inl e
      | Inr dname \<Rightarrow>
     (case get_then (get_then (dict_get deal ''associations'' (JObj [])) ''lineItems'' (JObj []))
             ''items'' (JArr []) of
        Inl e \<Rightarrow> Inl e
      | Inr line_items_data \<Rightarrow>
     (case iterate line_items_data of
        Inl e \<Rightarrow> Inl e
      | Inr lis \<Rightarrow> graphql_line_items_loop dname lis items)))"

fun graphql_deals_loop :: "json list \<Rightarrow> line_item list \<Rightarrow> py_error + line_item list" where
  "graphql_deals_loop [] items = Inr items"
| "graphql_deals_loop (deal # deals) items =
     (case graphql_deal deal items of
        Inl e \<Rightarrow> Inl e
      | Inr items' \<Rightarrow> graphql_deals_loop deals items')"

text \<open>Lines 241-259: processing of the decoded response.\<close>

definition graphql_process :: "json \<Rightarrow> py_error + line_item list" where
  "graphql_process data =
     (case get_then (get_then (dict_get data ''data'' (JObj [])) ''CRM'' (JObj []))
             ''company'' (JObj []) of
        Inl e \<Rightarrow> Inl e
      | Inr company_data \<Rightarrow>
     (case get_then (get_then (dict_get company_data ''associations'' (JObj [])) ''deals'' (JObj []))
             ''items'' (JArr []) of
        Inl e \<Rightarrow> Inl e
      | Inr deals \<Rightarrow>
     (case iterate deals of
        Inl e \<Rightarrow> Inl e
      | Inr ds \<Rightarrow> graphql_deals_loop ds [])))"

text \<open>
  \<^verbatim>\<open>get_company_line_items_graphql(access_token, company_id)\<close>: the returned value
  (\<open>None\<close> is Python's \<^verbatim>\<open>None\<close>) or the raised exception, and the network calls made.
  When the body has \<open>errors\<close>, the warning at line 237 formats \<^verbatim>\<open>data['errors']\<close>
  before \<^verbatim>\<open>None\<close> is returned, which raises for a list or a string.
\<close>

definition get_company_line_items_graphql ::
  "upstream \<Rightarrow> json \<Rightarrow> string \<Rightarrow> (py_error + line_item list option) \<times> request list" where
  "get_company_line_items_graphql http tok company_id =
     (case authorized_call http tok (PostGraphQL tok company_id) of
        Inl e \<Rightarrow> (Inl e, [])
      | Inr resp \<Rightarrow>
      if status_code resp \<noteq> 200 then (Inr None, [PostGraphQL tok company_id])
      else
        (case response_json resp of
           Inl e \<Rightarrow> (Inl e, [PostGraphQL tok company_id])
         | Inr data \<Rightarrow>
             (case contains ''errors'' data of
                Inl e \<Rightarrow> (Inl e, [PostGraphQL tok company_id])
              | Inr True \<Rightarrow>
                  (case subscript data ''errors'' of
                     Inl e \<Rightarrow> (Inl e, [PostGraphQL tok company_id])
                   | Inr errors \<Rightarrow> (Inr None, [PostGraphQL tok company_id]))
              | Inr False \<Rightarrow>
                  (case graphql_process data of
                     Inl e \<Rightarrow> (Inl e, [PostGraphQL tok company_id])
                   | Inr items \<Rightarrow> (Inr (Some items), [PostGraphQL tok company_id])))))"

subsection \<open>REST-traversal fallback\<close>

text \<open>Lines 312-321: the record for one fetched line item.\<close>

definition rest_record :: "json \<Rightarrow> json \<Rightarrow> py_error + line_item" where
  "rest_record dname line_item_data =
     (case dict_get line_item_data ''properties'' (JObj []) of
        Inl e \<Rightarrow> Inl e
      | Inr props \<Rightarrow>
     (case dict_get props ''name'' (JStr ''Unknown Item'') of
        Inl e \<Rightarrow> Inl e
      | Inr n \<Rightarrow>
     (case dict_get props ''quantity'' (JNum 0) of
        Inl e \<Rightarrow> Inl e
      | Inr q \<Rightarrow>
     (case dict_get props ''price'' (JNum 0) of
        Inl e \<Rightarrow> Inl e
      | Inr p \<Rightarrow>
     (case dict_get props ''amount'' (JNum 0) of
        Inl e \<Rightarrow> Inl e
      | Inr a \<Rightarrow>
          Inr \<lparr>deal_name = dname, line_item_name = n, quantity = q,
               unit_price = p, amount = a\<rparr>)))))"

text \<open>
  Lines 304-321: the body of the inner loop, for one line-item association. The state is
  the list built so far and the calls made so far; \<^verbatim>\<open>continue\<close> leaves the list as it is.
\<close>

definition rest_line_item ::
  "upstream \<Rightarrow> json \<Rightarrow> json \<Rightarrow> json \<Rightarrow> line_item list \<Rightarrow> request list
     \<Rightarrow> (py_error + line_item list) \<times> request list" where
  "rest_line_item http tok dname assoc items calls =
     (case subscript assoc ''id'' of
        Inl e \<Rightarrow> (Inl e, calls)
      | Inr line_item_id \<Rightarrow>
          (case authorized_call http tok (GetLineItem tok line_item_id) of
             Inl e \<Rightarrow> (Inl e, calls)
           | Inr resp \<Rightarrow>
          (let calls' = calls @ [GetLineItem tok line_item_id] in
           if status_code resp \<noteq> 200 then (Inr items, calls')
           else
             (case response_json resp of
                Inl e \<Rightarrow> (Inl e, calls')
              | Inr line_item_data \<Rightarrow>
                  (case rest_record dname line_item_data of
                     Inl e \<Rightarrow> (Inl e, calls')
                   | Inr r \<Rightarrow> (Inr (items @ [r]), calls'))))))"

fun rest_line_items_loop ::
  "upstream \<Rightarrow> json \<Rightarrow> json \<Rightarrow> json list \<Rightarrow> line_item list \<Rightarrow> request list
     \<Rightarrow> (py_error + line_item list) \<times> request list" where
  "rest_line_items_loop http tok dname [] items calls = (Inr items, calls)"
| "rest_line_items_loop http tok dname (assoc # assocs) items calls =
     (case rest_line_item http tok dname assoc items calls of
        (Inl e, calls') \<Rightarrow> (Inl e, calls')
      | (Inr items', calls') \<Rightarrow> rest_line_items_loop http tok dname assocs items' calls')"

text \<open>Lines 281-321: the body of the outer loop, for one deal association.\<close>

definition rest_deal ::
  "upstream \<Rightarrow> json \<Rightarrow> json \<Rightarrow> line_item list \<Rightarrow> request list
     \<Rightarrow> (py_error + line_item list) \<times> request list" where
  "rest_deal http tok deal_association items calls =
     (case subscript deal_association ''id'' of
        Inl e \<Rightarrow> (Inl e, calls)
      | Inr deal_id \<Rightarrow>
          (case authorized_call http tok (GetDeal tok deal_id) of
             Inl e \<Rightarrow> (Inl e, calls)
           | Inr deal_response \<Rightarrow>
          (let calls1 = calls @ [GetDeal tok deal_id] in
           if status_code deal_response \<noteq> 200 then (Inr items, calls1)
           else
             (case response_json deal_response of
                Inl e \<Rightarrow> (Inl e, calls1)
              | Inr deal_data \<Rightarrow>
             (case get_then (dict_get deal_data ''properties'' (JObj []))
                     ''dealname'' (JStr ''Unknown Deal'') of
                Inl e \<Rightarrow> (Inl e, calls1)
              | Inr dname \<Rightarrow>
             (case authorized_call http tok (GetDealLineItems tok deal_id) of
                Inl e \<Rightarrow> (Inl e, calls1)
              | Inr line_items_response \<Rightarrow>
                  (let calls2 = calls1 @ [GetDealLineItems tok deal_id] in
                   if status_code line_items_response \<noteq> 200 then (Inr items, calls2)
                   else
                     (case response_json line_items_response of
                        Inl e \<Rightarrow> (Inl e, calls2)
                      | Inr line_items_data \<Rightarrow>
                     (case dict_get line_items_data ''results'' (JArr []) of
                        Inl e \<Rightarrow> (Inl e, calls2)
                      | Inr results \<Rightarrow>
                     (case iterate results of
                        Inl e \<Rightarrow> (Inl e, calls2)
                      | Inr assocs \<Rightarrow>
                          rest_line_items_loop http tok dname assocs items calls2))))))))))"

fun rest_deals_loop ::
  "upstream \<Rightarrow> json \<Rightarrow> json list \<Rightarrow> line_item list \<Rightarrow> request list
     \<Rightarrow> (py_error + line_item list) \<times> request list" where
  "rest_deals_loop http tok [] items calls = (Inr items, calls)"
| "rest_deals_loop http tok (d # ds) items calls =
     (case rest_deal http tok d items calls of
        (Inl e, calls') \<Rightarrow> (Inl e, calls')
      | (Inr items', calls') \<Rightarrow> rest_deals_loop http tok ds items' calls')"

text \<open>\<^verbatim>\<open>get_company_line_items_rest(access_token, company_id)\<close>.\<close>

definition get_company_line_items_rest ::
  "upstream \<Rightarrow> json \<Rightarrow> string \<Rightarrow> (py_error + line_item list) \<times> request list" where
  "get_company_line_items_rest http tok company_id =
     (case authorized_call http tok (GetCompanyDeals tok company_id) of
        Inl e \<Rightarrow> (Inl e, [])
      | Inr deals_response \<Rightarrow>
      if status_code deals_response \<noteq> 200 then (Inr [], [GetCompanyDeals tok company_id])
      else
        (case response_json deals_response of
           Inl e \<Rightarrow> (Inl e, [GetCompanyDeals tok company_id])
         | Inr deals_data \<Rightarrow>
        (case dict_get deals_data ''results'' (JArr []) of
           Inl e \<Rightarrow> (Inl e, [GetCompanyDeals tok company_id])
         | Inr results \<Rightarrow>
        (case iterate results of
           Inl e \<Rightarrow> (Inl e, [GetCompanyDeals tok company_id])
         | Inr ds \<Rightarrow> rest_deals_loop http tok ds [] [GetCompanyDeals tok company_id]))))"

section \<open>The calling layer\<close>

text \<open>
  Lines 169-173, the two-strategy retrieval inside the \<^verbatim>\<open>try\<close> block of the route: the
  list of line items or the raised exception, and all network calls made.
\<close>

definition fetch_line_items ::
  "upstream \<Rightarrow> json \<Rightarrow> string \<Rightarrow> (py_error + line_item list) \<times> request list" where
  "fetch_line_items http tok company_id =
     (case get_company_line_items_graphql http tok company_id of
        (Inl e, calls) \<Rightarrow> (Inl e, calls)
      | (Inr (Some items), calls) \<Rightarrow> (Inr items, calls)
      | (Inr None, calls) \<Rightarrow>
          (case get_company_line_items_rest http tok company_id of
             (r, calls') \<Rightarrow> (r, calls @ calls')))"

text \<open>
  \<^verbatim>\<open>verify_hubspot_signature\<close>; the keyed hash (HMAC-SHA256, as hex digits) is a parameter.
  \<^verbatim>\<open>hmac.compare_digest\<close> compares two strings of ASCII characters and raises
  \<^verbatim>\<open>TypeError\<close> for any other string.
\<close>

definition is_ascii :: "string \<Rightarrow> bool" where
  "is_ascii s = list_all (\<lambda>c. (of_char c :: nat) < 128) s"

definition verify_hubspot_signature ::
  "(string \<Rightarrow> string \<Rightarrow> string) \<Rightarrow> string \<Rightarrow> string option \<Rightarrow> string \<Rightarrow> py_error + bool" where
  "verify_hubspot_signature hmac_hex payload signature secret =
     (case signature of
        None \<Rightarrow> Inr False
      | Some sg \<Rightarrow>
          if sg = [] \<or> secret = [] then Inr False
          else if is_ascii sg \<and> is_ascii (hmac_hex secret payload)
          then Inr (sg = hmac_hex secret payload)
          else Inl TypeError)"

text \<open>What the route answers: the JSON document and the HTTP status.\<close>

datatype reply_body = Error string | LineItems string "line_item list"

type_synonym reply = "reply_body \<times> int"

text \<open>
  Lines 162-182 of the route: the token lookup, which is outside the \<^verbatim>\<open>try\<close> block, and
  the retrieval inside it. The result is the reply, or the exception that leaves the
  route, with the store afterwards and the network calls made.
\<close>

definition line_items_reply ::
  "upstream \<Rightarrow> int \<Rightarrow> int \<Rightarrow> string token_storage \<Rightarrow> string \<Rightarrow> string
     \<Rightarrow> (py_error + reply) \<times> string token_storage \<times> request list" where
  "line_items_reply http now now' storage portal_id company_id =
     (case get_hubspot_access_token http now now' storage portal_id of
        (Inl e, storage', calls) \<Rightarrow> (Inl e, storage', calls)
      | (Inr tok, storage', calls) \<Rightarrow>
          if \<not> truthy tok
          then (Inr (Error ''No valid access token found'', 401), storage', calls)
          else
            (case fetch_line_items http tok company_id of
               (Inl e, calls') \<Rightarrow>
                 (Inr (Error ''Failed to fetch line items'', 500), storage', calls @ calls')
             | (Inr items, calls') \<Rightarrow>
                 (Inr (LineItems company_id items, 200), storage', calls @ calls')))"

text \<open>
  The route \<^verbatim>\<open>get_company_line_items(company_id)\<close>. The inputs taken from the request are
  the two headers and the payload; \<open>secret\<close> is the configured webhook secret. The
  signature is verified only when the header is present and not empty (lines 155-160).
\<close>

definition get_company_line_items ::
  "upstream \<Rightarrow> (string \<Rightarrow> string \<Rightarrow> string) \<Rightarrow> string \<Rightarrow> int \<Rightarrow> int \<Rightarrow> string token_storage
     \<Rightarrow> string option \<Rightarrow> string option \<Rightarrow> string \<Rightarrow> string
     \<Rightarrow> (py_error + reply) \<times> string token_storage \<times> request list" where
  "get_company_line_items http hmac_hex secret now now' storage portal_header
       signature_header payload company_id =
     (case portal_header of
        None \<Rightarrow> (Inr (Error ''Portal ID not provided'', 400), storage, [])
      | Some portal_id \<Rightarrow>
          if portal_id = [] then (Inr (Error ''Portal ID not provided'', 400), storage, [])
          else if signature_header \<noteq> None \<and> signature_header \<noteq> Some []
          then
            (case verify_hubspot_signature hmac_hex payload signature_header secret of
               Inl e \<Rightarrow> (Inl e, storage, [])
             | Inr ok \<Rightarrow>
                 if \<not> ok then (Inr (Error ''Invalid signature'', 401), storage, [])
                 else line_items_reply http now now' storage portal_id company_id)
          else line_items_reply http now now' storage portal_id company_id)"

section \<open>Notions used in the statements\<close>

text \<open>The calls that only the REST traversal makes.\<close>

fun is_rest_call :: "request \<Rightarrow> bool" where
  "is_rest_call (PostToken rt) = False"
| "is_rest_call (PostGraphQL tok c) = False"
| "is_rest_call (GetCompanyDeals tok c) = True"
| "is_rest_call (GetDeal tok d) = True"
| "is_rest_call (GetDealLineItems tok d) = True"
| "is_rest_call (GetLineItem tok l) = True"

text \<open>
  The containers that the structured-query strategy expects, outermost first, and the
  property that, following them through nested dicts, one of them is absent.
\<close>

definition crm_path :: "string list" where
  "crm_path = [''data'', ''CRM'', ''company'', ''associations'', ''deals'', ''items'']"

fun path_absent :: "string list \<Rightarrow> json \<Rightarrow> bool" where
  "path_absent [] j = False"
| "path_absent (k # ks) (JObj kvs) =
     (case map_of kvs k of None \<Rightarrow> True | Some v \<Rightarrow> path_absent ks v)"
| "path_absent (k # ks) _ = False"

text \<open>
  Upstream data of one company: each deal has an id, its \<open>properties\<close> object if it has
  one, and its line items, each with an id and its \<open>properties\<close> object if it has one.
  The same data is presented in two ways: as the nested answer of the structured query,
  and as the answers of the REST endpoints (association lists and single objects).
\<close>

type_synonym crm_line_item = "json \<times> json option"

type_synonym crm_deal = "json \<times> json option \<times> crm_line_item list"

definition with_properties :: "json \<Rightarrow> json option \<Rightarrow> json" where
  "with_properties i p =
     JObj ((''id'', i) # (case p of None \<Rightarrow> [] | Some v \<Rightarrow> [(''properties'', v)]))"

definition association_list :: "json list \<Rightarrow> json" where
  "association_list ids = JObj [(''results'', JArr (map (\<lambda>i. JObj [(''id'', i)]) ids))]"

definition graphql_deal_node :: "crm_deal \<Rightarrow> json" where
  "graphql_deal_node d =
     (case d of (i, p, lis) \<Rightarrow>
        JObj ((''id'', i) # (case p of None \<Rightarrow> [] | Some v \<Rightarrow> [(''properties'', v)])
              @ [(''associations'', JObj [(''lineItems'',
                    JObj [(''items'', JArr (map (\<lambda>l. with_properties (fst l) (snd l)) lis))])])]))"

definition graphql_body :: "crm_deal list \<Rightarrow> json" where
  "graphql_body deals =
     JObj [(''data'', JObj [(''CRM'', JObj [(''company'', JObj [(''associations'',
       JObj [(''deals'', JObj [(''items'', JArr (map graphql_deal_node deals))])])])])])]"

definition serves_graphql :: "upstream \<Rightarrow> json \<Rightarrow> string \<Rightarrow> crm_deal list \<Rightarrow> bool" where
  "serves_graphql http tok company_id deals =
     (authorized_call http tok (PostGraphQL tok company_id)
        = Inr \<lparr>status_code = 200, body = Some (graphql_body deals)\<rparr>)"

definition serves_line_items :: "upstream \<Rightarrow> json \<Rightarrow> crm_line_item list \<Rightarrow> bool" where
  "serves_line_items http tok lis =
     list_all (\<lambda>l. authorized_call http tok (GetLineItem tok (fst l))
                     = Inr \<lparr>status_code = 200,
                            body = Some (with_properties (fst l) (snd l))\<rparr>) lis"

definition serves_deal :: "upstream \<Rightarrow> json \<Rightarrow> crm_deal \<Rightarrow> bool" where
  "serves_deal http tok d =
     (case d of (i, p, lis) \<Rightarrow>
        authorized_call http tok (GetDeal tok i)
          = Inr \<lparr>status_code = 200, body = Some (with_properties i p)\<rparr>
        \<and> authorized_call http tok (GetDealLineItems tok i)
            = Inr \<lparr>status_code = 200, body = Some (association_list (map fst lis))\<rparr>
        \<and> serves_line_items http tok lis)"

definition serves_rest :: "upstream \<Rightarrow> json \<Rightarrow> string \<Rightarrow> crm_deal list \<Rightarrow> bool" where
  "serves_rest http tok company_id deals =
     (authorized_call http tok (GetCompanyDeals tok company_id)
        = Inr \<lparr>status_code = 200, body = Some (association_list (map fst deals))\<rparr>
      \<and> list_all (serves_deal http tok) deals)"

text \<open>
  The canonical record as the specification words it: the deal name and the line-item
  name default to \<open>Unknown Deal\<close> and \<open>Unknown Item\<close>, the quantity, unit price and
  amount default to 0. Properties are plain when they are absent or a JSON object.
\<close>

definition field_or :: "json option \<Rightarrow> string \<Rightarrow> json \<Rightarrow> json" where
  "field_or p k dflt =
     (case p of
        Some (JObj ps) \<Rightarrow> (case map_of ps k of None \<Rightarrow> dflt | Some v \<Rightarrow> v)
      | _ \<Rightarrow> dflt)"

definition canonical_record :: "json option \<Rightarrow> json option \<Rightarrow> line_item" where
  "canonical_record deal_props item_props =
     \<lparr>deal_name = field_or deal_props ''dealname'' (JStr ''Unknown Deal''),
      line_item_name = field_or item_props ''name'' (JStr ''Unknown Item''),
      quantity = field_or item_props ''quantity'' (JNum 0),
      unit_price = field_or item_props ''price'' (JNum 0),
      amount = field_or item_props ''amount'' (JNum 0)\<rparr>"

definition canonical_records :: "crm_deal \<Rightarrow> line_item list" where
  "canonical_records d =
     (case d of (i, p, lis) \<Rightarrow> map (\<lambda>l. canonical_record p (snd l)) lis)"

fun plain_properties :: "json option \<Rightarrow> bool" where
  "plain_properties None = True"
| "plain_properties (Some (JObj ps)) = True"
| "plain_properties (Some _) = False"

definition plain_deal :: "crm_deal \<Rightarrow> bool" where
  "plain_deal d =
     (case d of (i, p, lis) \<Rightarrow> plain_properties p \<and> list_all (\<lambda>l. plain_properties (snd l)) lis)"

text \<open>
  The shapes of the bodies that the retrieval expects: an object's \<open>properties\<close>, when
  present, is a dict; an association list's \<open>results\<close>, when present, is a list of dicts
  with an \<open>id\<close>; the answer of the structured query either has an \<open>errors\<close> entry or
  nests dicts down to a list of deal nodes, every container being optional. An upstream is
  well shaped when each of its answers with status 200 has a JSON body of the shape expected
  for the request.
\<close>

fun is_dict :: "json \<Rightarrow> bool" where
  "is_dict (JObj kvs) = True"
| "is_dict _ = False"

fun optional_field :: "(json \<Rightarrow> bool) \<Rightarrow> string \<Rightarrow> json \<Rightarrow> bool" where
  "optional_field P k (JObj kvs) = (case map_of kvs k of None \<Rightarrow> True | Some v \<Rightarrow> P v)"
| "optional_field P k _ = False"

fun list_of :: "(json \<Rightarrow> bool) \<Rightarrow> json \<Rightarrow> bool" where
  "list_of P (JArr xs) = list_all P xs"
| "list_of P _ = False"

fun has_id :: "json \<Rightarrow> bool" where
  "has_id (JObj kvs) = (map_of kvs ''id'' \<noteq> None)"
| "has_id _ = False"

definition object_shape :: "json \<Rightarrow> bool" where
  "object_shape j = optional_field is_dict ''properties'' j"

definition association_shape :: "json \<Rightarrow> bool" where
  "association_shape j = optional_field (list_of has_id) ''results'' j"

definition deal_node_shape :: "json \<Rightarrow> bool" where
  "deal_node_shape d =
     (optional_field is_dict ''properties'' d
      \<and> optional_field
           (optional_field (optional_field (list_of object_shape) ''items'') ''lineItems'')
           ''associations'' d)"

definition company_shape :: "json \<Rightarrow> bool" where
  "company_shape c =
     optional_field
       (optional_field (optional_field (list_of deal_node_shape) ''items'') ''deals'')
       ''associations'' c"

definition graphql_shape :: "json \<Rightarrow> bool" where
  "graphql_shape j =
     (case j of
        JObj kvs \<Rightarrow>
          ''errors'' \<in> set (map fst kvs)
          \<or> optional_field (optional_field (optional_field company_shape ''company'') ''CRM'')
               ''data'' j
      | _ \<Rightarrow> False)"

fun expected_shape :: "request \<Rightarrow> json \<Rightarrow> bool" where
  "expected_shape (PostToken rt) j = True"
| "expected_shape (PostGraphQL tok c) j = graphql_shape j"
| "expected_shape (GetCompanyDeals tok c) j = association_shape j"
| "expected_shape (GetDeal tok d) j = object_shape j"
| "expected_shape (GetDealLineItems tok d) j = association_shape j"
| "expected_shape (GetLineItem tok l) j = object_shape j"

definition well_shaped :: "upstream \<Rightarrow> bool" where
  "well_shaped http =
     (\<forall>r. status_code (http r) = 200
          \<longrightarrow> (case body (http r) of None \<Rightarrow> False | Some j \<Rightarrow> expected_shape r j))"

text \<open>
  A request passes the signature check of the route when it has no signature header, or
  an empty one, or one that \<open>verify_hubspot_signature\<close> accepts.
\<close>

definition signature_accepted ::
  "(string \<Rightarrow> string \<Rightarrow> string) \<Rightarrow> string \<Rightarrow> string \<Rightarrow> string option \<Rightarrow> bool" where
  "signature_accepted hmac_hex secret payload signature_header =
     (signature_header = None \<or> signature_header = Some []
      \<or> verify_hubspot_signature hmac_hex payload signature_header secret = Inr True)"

section \<open>Example data\<close>

text \<open>A tenant, its stored credential and two upstreams: one that fails every call and one
  that renews the refresh token r1.\<close>

definition example_record :: token_data where
  "example_record =
     \<lparr>access_token = JStr ''a1'', refresh_token = JStr ''r1'', expires_at = 990,
      scope = JStr ''crm.objects.deals.read''\<rparr>"

definition example_store :: "string token_storage" where
  "example_store = [''42'' \<mapsto> example_record]"

definition failing_upstream :: upstream where
  "failing_upstream r = \<lparr>status_code = 500, body = None\<rparr>"

fun refreshing_upstream :: upstream where
  "refreshing_upstream (PostToken rt) =
     (if rt = JStr ''r1''
      then \<lparr>status_code = 200,
            body = Some (JObj [(''access_token'', JStr ''a2''), (''expires_in'', JNum 3600)])\<rparr>
      else \<lparr>status_code = 400, body = None\<rparr>)"
| "refreshing_upstream _ = \<lparr>status_code = 404, body = None\<rparr>"


text \<open>
  Upstreams that answer every call with 200 and, respectively, an empty JSON object and a
  company without deals; a store without any tenant; a keyed hash that is not used.
\<close>

definition empty_body_upstream :: upstream where
  "empty_body_upstream r = \<lparr>status_code = 200, body = Some (JObj [])\<rparr>"

definition no_deals_upstream :: upstream where
  "no_deals_upstream r =
     \<lparr>status_code = 200,
      body = Some (JObj [(''data'', JObj [(''CRM'', JObj [(''company'',
               JObj [(''associations'', JObj [(''deals'', JObj [(''items'', JArr [])])])])])])])\<rparr>"

definition empty_store :: "string token_storage" where
  "empty_store = Map.empty"

definition no_hmac :: "string \<Rightarrow> string \<Rightarrow> string" where
  "no_hmac key msg = []"

text \<open>A keyed hash with one fixed digest, for a request that carries a signature.\<close>

definition fixed_digest :: "string \<Rightarrow> string \<Rightarrow> string" where
  "fixed_digest key msg = ''5f2a''"

text \<open>
  A company with two deals: the line-item association call of deal A fails, deal B has one
  line item; the structured query fails, so the retrieval falls back.
\<close>

fun two_deals_upstream :: upstream where
  "two_deals_upstream (GetCompanyDeals tok c) =
     \<lparr>status_code = 200,
      body = Some (JObj [(''results'', JArr [JObj [(''id'', JStr ''A'')],
                                              JObj [(''id'', JStr ''B'')]])])\<rparr>"
| "two_deals_upstream (GetDeal tok d) =
     (if d = JStr ''A''
      then \<lparr>status_code = 200,
            body = Some (JObj [(''id'', JStr ''A''),
                               (''properties'', JObj [(''dealname'', JStr ''Deal A'')])])\<rparr>
      else if d = JStr ''B''
      then \<lparr>status_code = 200,
            body = Some (JObj [(''id'', JStr ''B''),
                               (''properties'', JObj [(''dealname'', JStr ''Deal B'')])])\<rparr>
      else \<lparr>status_code = 404, body = None\<rparr>)"
| "two_deals_upstream (GetDealLineItems tok d) =
     (if d = JStr ''B''
      then \<lparr>status_code = 200,
            body = Some (JObj [(''results'', JArr [JObj [(''id'', JStr ''L1'')]])])\<rparr>
      else \<lparr>status_code = 500, body = None\<rparr>)"
| "two_deals_upstream (GetLineItem tok l) =
     (if l = JStr ''L1''
      then \<lparr>status_code = 200,
            body = Some (JObj [(''id'', JStr ''L1''),
                               (''properties'', JObj [(''name'', JStr ''Widget''),
                                  (''quantity'', JStr ''2''), (''price'', JStr ''10''),
                                  (''amount'', JStr ''20'')])])\<rparr>
      else \<lparr>status_code = 404, body = None\<rparr>)"
| "two_deals_upstream (PostGraphQL tok c) = \<lparr>status_code = 500, body = None\<rparr>"
| "two_deals_upstream (PostToken rt) = \<lparr>status_code = 400, body = None\<rparr>"

text \<open>
  A company with two deals, presented both ways: the first deal and its line item have no
  properties, the second deal has a name and a line item with a name and a quantity.
\<close>

definition example_deals :: "crm_deal list" where
  "example_deals =
     [(JStr ''D1'', None, [(JStr ''L1'', None)]),
      (JStr ''D2'', Some (JObj [(''dealname'', JStr ''Renewal'')]),
       [(JStr ''L2'', Some (JObj [(''name'', JStr ''Seat''), (''quantity'', JNum 3)]))])]"

fun example_deals_upstream :: upstream where
  "example_deals_upstream (PostGraphQL tok c) =
     \<lparr>status_code = 200, body = Some (graphql_body example_deals)\<rparr>"
| "example_deals_upstream (GetCompanyDeals tok c) =
     \<lparr>status_code = 200, body = Some (association_list [JStr ''D1'', JStr ''D2''])\<rparr>"
| "example_deals_upstream (GetDeal tok d) =
     (if d = JStr ''D1''
      then \<lparr>status_code = 200, body = Some (JObj [(''id'', JStr ''D1'')])\<rparr>
      else \<lparr>status_code = 200,
            body = Some (JObj [(''id'', JStr ''D2''),
                               (''properties'', JObj [(''dealname'', JStr ''Renewal'')])])\<rparr>)"
| "example_deals_upstream (GetDealLineItems tok d) =
     (if d = JStr ''D1''
      then \<lparr>status_code = 200, body = Some (association_list [JStr ''L1''])\<rparr>
      else \<lparr>status_code = 200, body = Some (association_list [JStr ''L2''])\<rparr>)"
| "example_deals_upstream (GetLineItem tok l) =
     (if l = JStr ''L1''
      then \<lparr>status_code = 200, body = Some (JObj [(''id'', JStr ''L1'')])\<rparr>
      else \<lparr>status_code = 200,
            body = Some (JObj [(''id'', JStr ''L2''),
                               (''properties'', JObj [(''name'', JStr ''Seat''),
                                                      (''quantity'', JNum 3)])])\<rparr>)"
| "example_deals_upstream (PostToken rt) = \<lparr>status_code = 400, body = None\<rparr>"

text \<open>An upstream whose every answer is 200 with the body \<^verbatim>\<open>{"data": null}\<close>.\<close>

definition null_data_upstream :: upstream where
  "null_data_upstream r = \<lparr>status_code = 200, body = Some (JObj [(''data'', JNull)])\<rparr>"

section \<open>Verified properties\<close>

subsection \<open>Token lifecycle\<close>

text \<open>
  Claim C5. When the stored credential of a tenant satisfies \<open>now \<le> expires_at\<close>,
  resolving the token makes no network call, returns the stored access token and leaves
  the whole credential store as it was.
\<close>

theorem unexpired_token_served_from_store:
  assumes "storage portal_id = Some td" and "now \<le> expires_at td"
  shows "get_hubspot_access_token http now now' storage portal_id
           = (Inr (access_token td), storage, [])"
  using assms by (simp add: get_hubspot_access_token_def)

theorem unexpired_token_served_from_store_witness:
  "example_store ''42'' = Some example_record
   \<and> (990::int) \<le> expires_at example_record
   \<and> get_hubspot_access_token failing_upstream 990 991 example_store ''42''
      = (Inr (JStr ''a1''), example_store, [])"
  using unexpired_token_served_from_store
    [of example_store "''42''" example_record 990 failing_upstream 991]
  by (simp add: example_store_def example_record_def)

text \<open>
  Claim C10. When the token endpoint answers a refresh with a status other than 200,
  \<open>refresh_access_token\<close> returns \<^verbatim>\<open>None\<close> and the credential store is unchanged, so
  the stale record and its refresh token stay stored.
\<close>

theorem failed_refresh_leaves_store:
  assumes "status_code (http (PostToken rt)) \<noteq> 200"
  shows "refresh_access_token http now storage portal_id rt
           = (Inr JNull, storage, [PostToken rt])"
  using assms by (simp add: refresh_access_token_def)

theorem failed_refresh_leaves_store_witness:
  "status_code (failing_upstream (PostToken (JStr ''r1''))) \<noteq> 200
   \<and> refresh_access_token failing_upstream 1000 example_store ''42'' (JStr ''r1'')
      = (Inr JNull, example_store, [PostToken (JStr ''r1'')])
   \<and> example_store ''42'' = Some example_record"
  using failed_refresh_leaves_store
    [of failing_upstream "JStr ''r1''" 1000 example_store "''42''"]
  by (simp add: failing_upstream_def example_store_def)

text \<open>
  Claim C4. An expired record with a refresh token is refreshed; when the endpoint answers
  200 with an access token and \<open>expires_in\<close> but without \<open>refresh_token\<close>, the stored
  record keeps the prior refresh token, and its access token and expiry are replaced by
  the new token and by the clock reading of the refresh plus \<open>expires_in\<close>. The witness is
  the scenario of the specification (tenant 42, refresh token r1, answer a2 and 3600).
\<close>

theorem refresh_retains_refresh_token:
  assumes "storage portal_id = Some td"
    and "expires_at td < now"
    and "truthy (refresh_token td)"
    and "status_code (http (PostToken (refresh_token td))) = 200"
    and "body (http (PostToken (refresh_token td))) = Some (JObj kvs)"
    and "map_of kvs ''refresh_token'' = None"
    and "map_of kvs ''access_token'' = Some at"
    and "map_of kvs ''expires_in'' = Some (JNum n)"
    and "datetime_min \<le> now' + n" and "now' + n \<le> datetime_max"
  shows "get_hubspot_access_token http now now' storage portal_id
           = (Inr at,
              storage(portal_id \<mapsto>
                \<lparr>access_token = at, refresh_token = refresh_token td, expires_at = now' + n,
                 scope = (case map_of kvs ''scope'' of None \<Rightarrow> JStr '''' | Some s \<Rightarrow> s)\<rparr>),
              [PostToken (refresh_token td)])"
  using assms
  by (simp add: get_hubspot_access_token_def refresh_access_token_def response_json_def
      refreshed_record_def datetime_plus_seconds_def)

theorem refresh_retains_refresh_token_witness:
  "example_store ''42'' = Some example_record
   \<and> expires_at example_record = 1000 - 10
   \<and> refresh_token example_record = JStr ''r1''
   \<and> refreshing_upstream (PostToken (JStr ''r1''))
      = \<lparr>status_code = 200,
         body = Some (JObj [(''access_token'', JStr ''a2''), (''expires_in'', JNum 3600)])\<rparr>
   \<and> get_hubspot_access_token refreshing_upstream 1000 1000 example_store ''42''
      = (Inr (JStr ''a2''),
         example_store(''42'' \<mapsto>
           \<lparr>access_token = JStr ''a2'', refresh_token = JStr ''r1'', expires_at = 1000 + 3600,
            scope = JStr ''''\<rparr>),
         [PostToken (JStr ''r1'')])"
  using refresh_retains_refresh_token
    [of example_store "''42''" example_record 1000 refreshing_upstream
        "[(''access_token'', JStr ''a2''), (''expires_in'', JNum 3600)]" "JStr ''a2''" 3600 1000]
  by (simp add: example_store_def example_record_def datetime_min_def datetime_max_def)




subsection \<open>Strategy ordering\<close>

text \<open>A call with the authorization header is answered exactly when the token can be sent.\<close>

lemma authorized_call_sent:
  "header_value_ok tok \<Longrightarrow> authorized_call http tok req = Inr (http req)"
  by (simp add: authorized_call_def)

lemma authorized_call_refused:
  "\<not> header_value_ok tok \<Longrightarrow> authorized_call http tok req = Inl InvalidHeader"
  by (simp add: authorized_call_def)

lemma authorized_call_answer:
  assumes "authorized_call http tok req = Inr resp"
  shows "header_value_ok tok" and "resp = http req"
  using assms by (auto simp add: authorized_call_def split: if_splits)

lemma graphql_calls:
  "snd (get_company_line_items_graphql http tok cid) = [PostGraphQL tok cid]
   \<or> (snd (get_company_line_items_graphql http tok cid) = []
       \<and> fst (get_company_line_items_graphql http tok cid) = Inl InvalidHeader
       \<and> \<not> header_value_ok tok)"
  by (cases "header_value_ok tok")
     (simp_all add: get_company_line_items_graphql_def authorized_call_def
        split: sum.splits bool.splits)

lemma rest_line_item_calls:
  "set calls \<subseteq> set (snd (rest_line_item http tok dn a items calls))"
  by (auto simp add: rest_line_item_def Let_def split: sum.splits)

lemma rest_line_items_loop_calls:
  "set calls \<subseteq> set (snd (rest_line_items_loop http tok dn as items calls))"
proof (induction as arbitrary: items calls)
  case Nil
  show ?case by simp
next
  case (Cons a as)
  show ?case
  proof (cases "rest_line_item http tok dn a items calls")
    case (Pair r calls')
    with rest_line_item_calls [of calls http tok dn a items]
    have sub: "set calls \<subseteq> set calls'" by simp
    show ?thesis
    proof (cases r)
      case (Inl e)
      with Pair sub show ?thesis by simp
    next
      case (Inr items')
      with Pair sub Cons.IH [where items = items' and calls = calls'] show ?thesis by auto
    qed
  qed
qed

lemma rest_deal_calls:
  "set calls \<subseteq> set (snd (rest_deal http tok d items calls))"
proof -
  have "\<And>dn as cs x. x \<in> set cs
          \<Longrightarrow> x \<in> set (snd (rest_line_items_loop http tok dn as items cs))"
    using rest_line_items_loop_calls by blast
  then show ?thesis
    by (auto simp add: rest_deal_def Let_def split: sum.splits)
qed

lemma rest_deals_loop_calls:
  "set calls \<subseteq> set (snd (rest_deals_loop http tok ds items calls))"
proof (induction ds arbitrary: items calls)
  case Nil
  show ?case by simp
next
  case (Cons d ds)
  show ?case
  proof (cases "rest_deal http tok d items calls")
    case (Pair r calls')
    with rest_deal_calls [of calls http tok d items]
    have sub: "set calls \<subseteq> set calls'" by simp
    show ?thesis
    proof (cases r)
      case (Inl e)
      with Pair sub show ?thesis by simp
    next
      case (Inr items')
      with Pair sub Cons.IH [where items = items' and calls = calls'] show ?thesis by auto
    qed
  qed
qed

lemma rest_first_call:
  assumes "header_value_ok tok"
  shows "GetCompanyDeals tok cid \<in> set (snd (get_company_line_items_rest http tok cid))"
proof -
  have "\<And>ds. GetCompanyDeals tok cid
          \<in> set (snd (rest_deals_loop http tok ds [] [GetCompanyDeals tok cid]))"
    using rest_deals_loop_calls [of "[GetCompanyDeals tok cid]"] by auto
  then show ?thesis
    using assms
    by (auto simp add: get_company_line_items_rest_def authorized_call_def split: sum.splits)
qed

lemma graphql_inconclusive:
  assumes "authorized_call http tok (PostGraphQL tok cid) = Inr resp"
    and "status_code resp \<noteq> 200
         \<or> (\<exists>kvs. body resp = Some (JObj kvs) \<and> ''errors'' \<in> fst ` set kvs)"
  shows "get_company_line_items_graphql http tok cid = (Inr None, [PostGraphQL tok cid])"
proof (cases "status_code resp = 200")
  case False
  with assms(1) show ?thesis by (simp add: get_company_line_items_graphql_def)
next
  case True
  with assms(2) obtain kvs where b: "body resp = Some (JObj kvs)"
    and e: "''errors'' \<in> fst ` set kvs" by blast
  from e have "map_of kvs ''errors'' \<noteq> None" by (simp add: map_of_eq_None_iff)
  with True assms(1) b e show ?thesis
    by (auto simp add: get_company_line_items_graphql_def response_json_def)
qed

lemma graphql_sentinel_sent:
  assumes "fst (get_company_line_items_graphql http tok cid) = Inr v"
  shows "header_value_ok tok"
    and "snd (get_company_line_items_graphql http tok cid) = [PostGraphQL tok cid]"
proof -
  show ok: "header_value_ok tok"
  proof (rule ccontr)
    assume "\<not> header_value_ok tok"
    then have "get_company_line_items_graphql http tok cid = (Inl InvalidHeader, [])"
      by (simp add: get_company_line_items_graphql_def authorized_call_def)
    with assms show False by simp
  qed
  from ok graphql_calls [of http tok cid]
  show "snd (get_company_line_items_graphql http tok cid) = [PostGraphQL tok cid]" by blast
qed

text \<open>
  Claim C1. The REST traversal is invoked if and only if the structured-query strategy
  returns \<^verbatim>\<open>None\<close>: exactly then a REST call appears among the calls of the retrieval.
  A structured-query success with zero records gives the empty list after the one
  structured-query call; when the structured query is answered with a status other than
  200, or with an \<open>errors\<close> entry in the body, the retrieval returns what the REST
  traversal returns, its calls following the structured-query call.
\<close>

theorem fallback_iff_inconclusive:
  "(fst (get_company_line_items_graphql http tok cid) = Inr None
      \<longleftrightarrow> (\<exists>r \<in> set (snd (fetch_line_items http tok cid)). is_rest_call r))
   \<and> (fst (get_company_line_items_graphql http tok cid) = Inr (Some [])
      \<longrightarrow> fetch_line_items http tok cid = (Inr [], [PostGraphQL tok cid]))
   \<and> (authorized_call http tok (PostGraphQL tok cid) = Inr resp
        \<and> (status_code resp \<noteq> 200
            \<or> (\<exists>kvs. body resp = Some (JObj kvs) \<and> ''errors'' \<in> fst ` set kvs))
      \<longrightarrow> fetch_line_items http tok cid
            = (fst (get_company_line_items_rest http tok cid),
               PostGraphQL tok cid # snd (get_company_line_items_rest http tok cid)))"
proof -
  obtain g gc where g: "get_company_line_items_graphql http tok cid = (g, gc)"
    by (cases "get_company_line_items_graphql http tok cid")
  obtain r rc where r: "get_company_line_items_rest http tok cid = (r, rc)"
    by (cases "get_company_line_items_rest http tok cid")
  have gc: "\<forall>q \<in> set gc. \<not> is_rest_call q"
    using graphql_calls [of http tok cid] g by auto
  have a: "(g = Inr None) = (\<exists>q \<in> set (snd (fetch_line_items http tok cid)). is_rest_call q)"
  proof (cases g)
    case (Inl e)
    with g gc show ?thesis by (simp add: fetch_line_items_def)
  next
    case (Inr v)
    show ?thesis
    proof (cases v)
      case None
      with Inr g have "header_value_ok tok"
        using graphql_sentinel_sent(1) [of http tok cid None] by simp
      then have "GetCompanyDeals tok cid \<in> set rc"
        using rest_first_call [of tok cid http] r by simp
      with None Inr g r show ?thesis
        by (auto simp add: fetch_line_items_def intro: bexI [of _ "GetCompanyDeals tok cid"])
    next
      case (Some items)
      with Inr g gc show ?thesis by (simp add: fetch_line_items_def)
    qed
  qed
  have b: "g = Inr (Some []) \<longrightarrow> fetch_line_items http tok cid = (Inr [], [PostGraphQL tok cid])"
    using g graphql_sentinel_sent(2) [of http tok cid "Some []"]
    by (auto simp add: fetch_line_items_def)
  have c: "authorized_call http tok (PostGraphQL tok cid) = Inr resp
        \<and> (status_code resp \<noteq> 200
            \<or> (\<exists>kvs. body resp = Some (JObj kvs) \<and> ''errors'' \<in> fst ` set kvs))
      \<longrightarrow> fetch_line_items http tok cid = (r, PostGraphQL tok cid # rc)"
    using graphql_inconclusive [of http tok cid resp] r
    by (auto simp add: fetch_line_items_def)
  from a b c g r show ?thesis by simp
qed

theorem fallback_iff_inconclusive_witness:
  "fst (get_company_line_items_graphql no_deals_upstream (JStr ''t'') ''c1'') = Inr (Some [])
   \<and> fetch_line_items no_deals_upstream (JStr ''t'') ''c1''
      = (Inr [], [PostGraphQL (JStr ''t'') ''c1''])
   \<and> authorized_call failing_upstream (JStr ''t'') (PostGraphQL (JStr ''t'') ''c1'')
      = Inr \<lparr>status_code = 500, body = None\<rparr>
   \<and> fst (get_company_line_items_graphql failing_upstream (JStr ''t'') ''c1'') = Inr None
   \<and> fetch_line_items failing_upstream (JStr ''t'') ''c1''
      = (Inr [], [PostGraphQL (JStr ''t'') ''c1'', GetCompanyDeals (JStr ''t'') ''c1''])"
proof -
  have g: "fst (get_company_line_items_graphql no_deals_upstream (JStr ''t'') ''c1'')
             = Inr (Some [])"
    by (simp add: get_company_line_items_graphql_def authorized_call_def header_value_ok_def
        no_deals_upstream_def response_json_def graphql_process_def get_then_def)
  have f: "authorized_call failing_upstream (JStr ''t'') (PostGraphQL (JStr ''t'') ''c1'')
      = Inr \<lparr>status_code = 500, body = None\<rparr>"
    by (simp add: authorized_call_def header_value_ok_def failing_upstream_def)
  have n: "fst (get_company_line_items_graphql failing_upstream (JStr ''t'') ''c1'') = Inr None"
    using f by (simp add: get_company_line_items_graphql_def)
  have r: "get_company_line_items_rest failing_upstream (JStr ''t'') ''c1''
             = (Inr [], [GetCompanyDeals (JStr ''t'') ''c1''])"
    by (simp add: get_company_line_items_rest_def authorized_call_def header_value_ok_def
        failing_upstream_def)
  have a: "fetch_line_items no_deals_upstream (JStr ''t'') ''c1''
      = (Inr [], [PostGraphQL (JStr ''t'') ''c1''])"
    using g fallback_iff_inconclusive [of no_deals_upstream "JStr ''t''" "''c1''"] by blast
  have b: "fetch_line_items failing_upstream (JStr ''t'') ''c1''
      = (Inr [], [PostGraphQL (JStr ''t'') ''c1'', GetCompanyDeals (JStr ''t'') ''c1''])"
    using f r
      fallback_iff_inconclusive
        [of failing_upstream "JStr ''t''" "''c1''" "\<lparr>status_code = 500, body = None\<rparr>"]
    by simp
  from g f n a b show ?thesis by simp
qed

lemma path_absent_ConsE:
  assumes "path_absent (k # ks) x"
  obtains kvs where "x = JObj kvs" and "map_of kvs k = None"
  | kvs v where "x = JObj kvs" and "map_of kvs k = Some v" and "path_absent ks v"
  using assms by (cases x) (auto split: option.splits)

lemma graphql_process_absent:
  assumes "path_absent crm_path j"
  shows "graphql_process j = Inr []"
  using assms unfolding crm_path_def
  by (auto simp add: graphql_process_def get_then_def elim!: path_absent_ConsE)

lemma errors_entry_read:
  assumes "contains ''errors'' d = Inr True"
  shows "(\<exists>v. subscript d ''errors'' = Inr v)
         \<longleftrightarrow> (\<exists>kvs. d = JObj kvs \<and> ''errors'' \<in> fst ` set kvs)"
proof (cases d)
  case (JObj kvs)
  with assms have "map_of kvs ''errors'' \<noteq> None" by (simp add: map_of_eq_None_iff)
  with JObj assms show ?thesis by auto
qed simp_all

lemma graphql_sentinel_iff:
  "fst (get_company_line_items_graphql http tok cid) = Inr None
   \<longleftrightarrow> (\<exists>resp. authorized_call http tok (PostGraphQL tok cid) = Inr resp
          \<and> (status_code resp \<noteq> 200
              \<or> (\<exists>kvs. body resp = Some (JObj kvs) \<and> ''errors'' \<in> fst ` set kvs)))"
proof (cases "authorized_call http tok (PostGraphQL tok cid)")
  case (Inl e)
  then show ?thesis by (simp add: get_company_line_items_graphql_def)
next
  case (Inr resp)
  show ?thesis
  proof (cases "status_code resp = 200")
    case False
    with Inr show ?thesis by (simp add: get_company_line_items_graphql_def)
  next
    case True
    show ?thesis
    proof (cases "body resp")
      case None
      with Inr True show ?thesis
        by (simp add: get_company_line_items_graphql_def response_json_def)
    next
      case (Some d)
      show ?thesis
      proof (cases "contains ''errors'' d")
        case (Inl e)
        then have "\<not> (\<exists>kvs. d = JObj kvs)" by (cases d) simp_all
        with Inr True Some Inl show ?thesis
          by (simp add: get_company_line_items_graphql_def response_json_def)
      next
        case c: (Inr b)
        show ?thesis
        proof (cases b)
          case True
          with c have "contains ''errors'' d = Inr True" by simp
          from errors_entry_read [OF this] Inr \<open>status_code resp = 200\<close> Some c True
          show ?thesis
            by (auto simp add: get_company_line_items_graphql_def response_json_def
                split: sum.splits)
        next
          case False
          with c have "\<not> (\<exists>kvs. d = JObj kvs \<and> ''errors'' \<in> fst ` set kvs)"
            by (cases d) auto
          with Inr \<open>status_code resp = 200\<close> Some c False show ?thesis
            by (auto simp add: get_company_line_items_graphql_def response_json_def
                split: sum.splits)
        qed
      qed
    qed
  qed
qed

text \<open>
  Claim C3, as stated, fails: a 200 answer whose body is the empty object lacks every
  expected container, and the strategy returns the empty list, not \<^verbatim>\<open>None\<close>.
\<close>

theorem absent_container_counterexample:
  "authorized_call empty_body_upstream (JStr ''t'') (PostGraphQL (JStr ''t'') ''c1'')
     = Inr \<lparr>status_code = 200, body = Some (JObj [])\<rparr>
   \<and> path_absent crm_path (JObj [])
   \<and> fst (get_company_line_items_graphql empty_body_upstream (JStr ''t'') ''c1'') = Inr (Some [])
   \<and> fst (get_company_line_items_graphql empty_body_upstream (JStr ''t'') ''c1'') \<noteq> Inr None"
  by (simp add: get_company_line_items_graphql_def authorized_call_def header_value_ok_def
      empty_body_upstream_def response_json_def graphql_process_def get_then_def crm_path_def)

text \<open>
  Claim C3, amended. When the structured query is answered 200 with a JSON object that has
  no \<open>errors\<close> entry and in which an expected container is absent, the strategy returns
  the empty list and the retrieval makes no REST call. The strategy returns \<^verbatim>\<open>None\<close>
  exactly when the query is answered with a status other than 200, or with a JSON object
  that has an \<open>errors\<close> entry.
\<close>

theorem absent_container_yields_empty_list:
  assumes "authorized_call http tok (PostGraphQL tok cid) = Inr resp"
    and "status_code resp = 200"
    and "body resp = Some (JObj kvs)"
    and "''errors'' \<notin> fst ` set kvs"
    and "path_absent crm_path (JObj kvs)"
  shows "get_company_line_items_graphql http tok cid = (Inr (Some []), [PostGraphQL tok cid])
         \<and> fetch_line_items http tok cid = (Inr [], [PostGraphQL tok cid])
         \<and> (fst (get_company_line_items_graphql http' tok' cid') = Inr None
              \<longleftrightarrow> (\<exists>resp'. authorized_call http' tok' (PostGraphQL tok' cid') = Inr resp'
                     \<and> (status_code resp' \<noteq> 200
                         \<or> (\<exists>kvs'. body resp' = Some (JObj kvs')
                                  \<and> ''errors'' \<in> fst ` set kvs'))))"
proof -
  have "get_company_line_items_graphql http tok cid = (Inr (Some []), [PostGraphQL tok cid])"
    using assms(1-4) graphql_process_absent [OF assms(5)]
    by (simp add: get_company_line_items_graphql_def response_json_def)
  then show ?thesis
    using graphql_sentinel_iff [of http' tok' cid'] by (simp add: fetch_line_items_def)
qed

theorem absent_container_yields_empty_list_witness:
  "authorized_call empty_body_upstream (JStr ''t'') (PostGraphQL (JStr ''t'') ''c1'')
     = Inr \<lparr>status_code = 200, body = Some (JObj [])\<rparr>
   \<and> ''errors'' \<notin> fst ` set ([] :: (string \<times> json) list)
   \<and> path_absent crm_path (JObj [])
   \<and> get_company_line_items_graphql empty_body_upstream (JStr ''t'') ''c1''
      = (Inr (Some []), [PostGraphQL (JStr ''t'') ''c1''])
   \<and> fetch_line_items empty_body_upstream (JStr ''t'') ''c1''
      = (Inr [], [PostGraphQL (JStr ''t'') ''c1''])"
proof -
  have a: "authorized_call empty_body_upstream (JStr ''t'') (PostGraphQL (JStr ''t'') ''c1'')
     = Inr \<lparr>status_code = 200, body = Some (JObj [])\<rparr>"
    by (simp add: authorized_call_def header_value_ok_def empty_body_upstream_def)
  have p: "path_absent crm_path (JObj [])" by (simp add: crm_path_def)
  show ?thesis
    using a p absent_container_yields_empty_list
      [of empty_body_upstream "JStr ''t''" "''c1''" "\<lparr>status_code = 200, body = Some (JObj [])\<rparr>"
          "[]" failing_upstream "JStr ''t''" "''c1''"]
    by simp
qed

subsection \<open>Outcomes at the calling layer\<close>

text \<open>
  Claim C2, as stated, fails: a tenant without a stored record and a tenant whose expired
  record cannot be refreshed get the same value from the token resolution and the same
  reply from the route, so the caller cannot tell the two conditions apart.
\<close>

theorem credential_outcomes_counterexample:
  "empty_store ''42'' = None
   \<and> example_store ''42'' = Some example_record
   \<and> expires_at example_record < 1000
   \<and> truthy (refresh_token example_record)
   \<and> status_code (failing_upstream (PostToken (refresh_token example_record))) \<noteq> 200
   \<and> fst (get_hubspot_access_token failing_upstream 1000 1000 empty_store ''42'')
      = fst (get_hubspot_access_token failing_upstream 1000 1000 example_store ''42'')
   \<and> fst (get_company_line_items failing_upstream no_hmac [] 1000 1000 empty_store
             (Some ''42'') None [] ''c1'')
      = fst (get_company_line_items failing_upstream no_hmac [] 1000 1000 example_store
             (Some ''42'') None [] ''c1'')"
proof -
  have e: "get_hubspot_access_token failing_upstream 1000 1000 empty_store ''42''
             = (Inr JNull, empty_store, [])"
    by (simp add: get_hubspot_access_token_def empty_store_def)
  have x: "get_hubspot_access_token failing_upstream 1000 1000 example_store ''42''
             = (Inr JNull, example_store, [PostToken (JStr ''r1'')])"
    by (simp add: get_hubspot_access_token_def refresh_access_token_def example_store_def
        example_record_def failing_upstream_def)
  have hyp: "empty_store ''42'' = None" "example_store ''42'' = Some example_record"
    "expires_at example_record < 1000" "truthy (refresh_token example_record)"
    "status_code (failing_upstream (PostToken (refresh_token example_record))) \<noteq> 200"
    by (simp_all add: empty_store_def example_store_def example_record_def failing_upstream_def)
  from e x hyp show ?thesis by (simp add: get_company_line_items_def line_items_reply_def)
qed

text \<open>
  Claim C2, amended. A missing record, an expired record without a refresh token and an
  expired record whose refresh is answered with a status other than 200 all resolve to
  \<^verbatim>\<open>None\<close>, leave the store unchanged and make the route reply 401 with the one message
  \<open>No valid access token found\<close>. For an expired record the resolution never returns the
  stored token: a value other than \<^verbatim>\<open>None\<close> is the access token of a 200 answer of the
  token endpoint.
\<close>

theorem unusable_credential_single_outcome:
  "(portal_id \<noteq> []
      \<and> (storage portal_id = None
          \<or> (storage portal_id = Some td \<and> expires_at td < now
              \<and> (\<not> truthy (refresh_token td)
                  \<or> status_code (http (PostToken (refresh_token td))) \<noteq> 200)))
    \<longrightarrow> fst (get_hubspot_access_token http now now' storage portal_id) = Inr JNull
        \<and> fst (snd (get_hubspot_access_token http now now' storage portal_id)) = storage
        \<and> fst (get_company_line_items http hmac_hex secret now now' storage
                 (Some portal_id) None payload company_id)
            = Inr (Error ''No valid access token found'', 401))
   \<and> (storage portal_id = Some td \<and> expires_at td < now
        \<and> fst (get_hubspot_access_token http now now' storage portal_id) = Inr v
        \<and> v \<noteq> JNull
      \<longrightarrow> truthy (refresh_token td)
          \<and> status_code (http (PostToken (refresh_token td))) = 200
          \<and> (\<exists>kvs. body (http (PostToken (refresh_token td))) = Some (JObj kvs)
                   \<and> map_of kvs ''access_token'' = Some v))"
proof -
  have a: "fst (get_hubspot_access_token http now now' storage portal_id) = Inr JNull
        \<and> fst (snd (get_hubspot_access_token http now now' storage portal_id)) = storage"
    if "storage portal_id = None
          \<or> (storage portal_id = Some td \<and> expires_at td < now
              \<and> (\<not> truthy (refresh_token td)
                  \<or> status_code (http (PostToken (refresh_token td))) \<noteq> 200))"
    using that
    by (auto simp add: get_hubspot_access_token_def refresh_access_token_def)
  have b: "fst (get_company_line_items http hmac_hex secret now now' storage
                 (Some portal_id) None payload company_id)
            = Inr (Error ''No valid access token found'', 401)"
    if "portal_id \<noteq> []"
      and "fst (get_hubspot_access_token http now now' storage portal_id) = Inr JNull"
    using that
    by (cases "get_hubspot_access_token http now now' storage portal_id")
       (simp add: get_company_line_items_def line_items_reply_def)
  have c: "truthy (refresh_token td)
          \<and> status_code (http (PostToken (refresh_token td))) = 200
          \<and> (\<exists>kvs. body (http (PostToken (refresh_token td))) = Some (JObj kvs)
                   \<and> map_of kvs ''access_token'' = Some v)"
    if "storage portal_id = Some td" and "expires_at td < now"
      and "fst (get_hubspot_access_token http now now' storage portal_id) = Inr v"
      and "v \<noteq> JNull"
  proof -
    from that have t: "truthy (refresh_token td)"
      by (auto simp add: get_hubspot_access_token_def split: if_splits)
    with that have r: "fst (refresh_access_token http now' storage portal_id (refresh_token td))
                        = Inr v"
      by (simp add: get_hubspot_access_token_def)
    with that(4) have s: "status_code (http (PostToken (refresh_token td))) = 200"
      by (auto simp add: refresh_access_token_def Let_def split: if_splits)
    from r s obtain j rec where j: "body (http (PostToken (refresh_token td))) = Some j"
      and rec: "refreshed_record now' j (refresh_token td) = Inr rec" and v: "access_token rec = v"
      by (auto simp add: refresh_access_token_def Let_def response_json_def
          split: option.splits sum.splits)
    from rec v obtain kvs where "j = JObj kvs" and "map_of kvs ''access_token'' = Some v"
      by (cases j) (auto simp add: refreshed_record_def split: sum.splits option.splits)
    with t s j show ?thesis by simp
  qed
  from a b c show ?thesis by blast
qed

theorem unusable_credential_single_outcome_witness:
  "''42'' \<noteq> [] \<and> empty_store ''42'' = None
   \<and> fst (get_company_line_items failing_upstream no_hmac [] 1000 1000 empty_store
            (Some ''42'') None [] ''c1'')
      = Inr (Error ''No valid access token found'', 401)
   \<and> example_store ''42'' = Some example_record \<and> expires_at example_record < 1000
   \<and> status_code (failing_upstream (PostToken (refresh_token example_record))) \<noteq> 200
   \<and> fst (get_company_line_items failing_upstream no_hmac [] 1000 1000 example_store
            (Some ''42'') None [] ''c1'')
      = Inr (Error ''No valid access token found'', 401)
   \<and> fst (get_hubspot_access_token refreshing_upstream 1000 1000 example_store ''42'')
      = Inr (JStr ''a2'')
   \<and> JStr ''a2'' \<noteq> JNull
   \<and> status_code (refreshing_upstream (PostToken (refresh_token example_record))) = 200"
proof -
  have hyp: "empty_store ''42'' = None" "example_store ''42'' = Some example_record"
    "expires_at example_record < 1000"
    "status_code (failing_upstream (PostToken (refresh_token example_record))) \<noteq> 200"
    by (simp_all add: empty_store_def example_store_def example_record_def failing_upstream_def)
  have res: "fst (get_hubspot_access_token refreshing_upstream 1000 1000 example_store ''42'')
      = Inr (JStr ''a2'')"
    by (simp add: get_hubspot_access_token_def refresh_access_token_def response_json_def
      refreshed_record_def datetime_plus_seconds_def datetime_min_def datetime_max_def
      example_store_def example_record_def)
  have none: "fst (get_company_line_items failing_upstream no_hmac [] 1000 1000 empty_store
            (Some ''42'') None [] ''c1'')
      = Inr (Error ''No valid access token found'', 401)"
    using hyp(1) unusable_credential_single_outcome
        [where portal_id = "''42''" and storage = empty_store and td = example_record
          and now = 1000 and now' = 1000 and http = failing_upstream and hmac_hex = no_hmac
          and secret = "[]" and payload = "[]" and company_id = "''c1''" and v = "JStr ''a2''"]
    by blast
  have failed: "fst (get_company_line_items failing_upstream no_hmac [] 1000 1000 example_store
            (Some ''42'') None [] ''c1'')
      = Inr (Error ''No valid access token found'', 401)"
    using hyp(2-4) unusable_credential_single_outcome
        [where portal_id = "''42''" and storage = example_store and td = example_record
          and now = 1000 and now' = 1000 and http = failing_upstream and hmac_hex = no_hmac
          and secret = "[]" and payload = "[]" and company_id = "''c1''" and v = "JStr ''a2''"]
    by blast
  have fresh: "status_code (refreshing_upstream (PostToken (refresh_token example_record))) = 200"
    using hyp(2-3) res unusable_credential_single_outcome
        [where portal_id = "''42''" and storage = example_store and td = example_record
          and now = 1000 and now' = 1000 and http = refreshing_upstream and hmac_hex = no_hmac
          and secret = "[]" and payload = "[]" and company_id = "''c1''" and v = "JStr ''a2''"]
    by blast
  from hyp res none failed fresh show ?thesis by simp
qed

subsection \<open>REST traversal\<close>

text \<open>The returned value of the traversal does not depend on the calls recorded before.\<close>

lemma rest_line_item_result:
  "fst (rest_line_item http tok dn a items calls) = fst (rest_line_item http tok dn a items calls')"
  by (simp add: rest_line_item_def Let_def split: sum.splits)

lemma rest_line_items_loop_result:
  "fst (rest_line_items_loop http tok dn as items calls)
     = fst (rest_line_items_loop http tok dn as items calls')"
proof (induction as arbitrary: items calls calls')
  case Nil
  show ?case by simp
next
  case (Cons a as)
  obtain r c where s: "rest_line_item http tok dn a items calls = (r, c)"
    by (cases "rest_line_item http tok dn a items calls")
  obtain r' c' where s': "rest_line_item http tok dn a items calls' = (r', c')"
    by (cases "rest_line_item http tok dn a items calls'")
  from s s' rest_line_item_result [of http tok dn a items calls calls'] have "r' = r" by simp
  with s s' Cons.IH [where calls = c and calls' = c'] show ?case
    by (cases r) simp_all
qed

lemma rest_deal_result:
  "fst (rest_deal http tok d items calls) = fst (rest_deal http tok d items calls')"
  using rest_line_items_loop_result
  by (simp add: rest_deal_def Let_def split: sum.splits)

lemma rest_deals_loop_result:
  "fst (rest_deals_loop http tok ds items calls) = fst (rest_deals_loop http tok ds items calls')"
proof (induction ds arbitrary: items calls calls')
  case Nil
  show ?case by simp
next
  case (Cons d ds)
  obtain r c where s: "rest_deal http tok d items calls = (r, c)"
    by (cases "rest_deal http tok d items calls")
  obtain r' c' where s': "rest_deal http tok d items calls' = (r', c')"
    by (cases "rest_deal http tok d items calls'")
  from s s' rest_deal_result [of http tok d items calls calls'] have "r' = r" by simp
  with s s' Cons.IH [where calls = c and calls' = c'] show ?case
    by (cases r) simp_all
qed

lemma rest_deals_loop_append:
  "fst (rest_deals_loop http tok (ds1 @ ds2) items calls)
     = (case fst (rest_deals_loop http tok ds1 items calls) of
          Inl e \<Rightarrow> Inl e
        | Inr items' \<Rightarrow> fst (rest_deals_loop http tok ds2 items' calls))"
proof (induction ds1 arbitrary: items calls)
  case Nil
  show ?case by simp
next
  case (Cons d ds1)
  obtain r c where s: "rest_deal http tok d items calls = (r, c)"
    by (cases "rest_deal http tok d items calls")
  show ?case
  proof (cases r)
    case (Inl e)
    with s show ?thesis by simp
  next
    case (Inr items')
    have "fst (rest_deals_loop http tok (ds1 @ ds2) items' c)
            = (case fst (rest_deals_loop http tok ds1 items' c) of
                 Inl e \<Rightarrow> Inl e
               | Inr items'' \<Rightarrow> fst (rest_deals_loop http tok ds2 items'' c))"
      by (rule Cons.IH)
    also have "\<dots> = (case fst (rest_deals_loop http tok ds1 items' c) of
                 Inl e \<Rightarrow> Inl e
               | Inr items'' \<Rightarrow> fst (rest_deals_loop http tok ds2 items'' calls))"
      using rest_deals_loop_result [of http tok ds2 _ c calls]
      by (simp split: sum.splits)
    finally show ?thesis using s Inr by simp
  qed
qed

lemma rest_line_items_loop_append:
  "fst (rest_line_items_loop http tok dn (as1 @ as2) items calls)
     = (case fst (rest_line_items_loop http tok dn as1 items calls) of
          Inl e \<Rightarrow> Inl e
        | Inr items' \<Rightarrow> fst (rest_line_items_loop http tok dn as2 items' calls))"
proof (induction as1 arbitrary: items calls)
  case Nil
  show ?case by simp
next
  case (Cons a as1)
  obtain r c where s: "rest_line_item http tok dn a items calls = (r, c)"
    by (cases "rest_line_item http tok dn a items calls")
  show ?case
  proof (cases r)
    case (Inl e)
    with s show ?thesis by simp
  next
    case (Inr items')
    have "fst (rest_line_items_loop http tok dn (as1 @ as2) items' c)
            = (case fst (rest_line_items_loop http tok dn as1 items' c) of
                 Inl e \<Rightarrow> Inl e
               | Inr items'' \<Rightarrow> fst (rest_line_items_loop http tok dn as2 items'' c))"
      by (rule Cons.IH)
    also have "\<dots> = (case fst (rest_line_items_loop http tok dn as1 items' c) of
                 Inl e \<Rightarrow> Inl e
               | Inr items'' \<Rightarrow> fst (rest_line_items_loop http tok dn as2 items'' calls))"
      using rest_line_items_loop_result [of http tok dn as2 _ c calls]
      by (simp split: sum.splits)
    finally show ?thesis using s Inr by simp
  qed
qed

lemma failed_line_item_is_skipped:
  assumes "subscript a ''id'' = Inr line_item_id"
    and "authorized_call http tok (GetLineItem tok line_item_id) = Inr item_answer"
    and "status_code item_answer \<noteq> 200"
  shows "fst (rest_line_items_loop http tok dn (as1 @ a # as2) items calls)
           = fst (rest_line_items_loop http tok dn (as1 @ as2) items calls)"
proof -
  have skip: "fst (rest_line_items_loop http tok dn (a # as2) its cs)
                = fst (rest_line_items_loop http tok dn as2 its cs)" for its cs
  proof -
    have "rest_line_item http tok dn a its cs = (Inr its, cs @ [GetLineItem tok line_item_id])"
      using assms by (simp add: rest_line_item_def)
    then show ?thesis
      using rest_line_items_loop_result
        [of http tok dn as2 its "cs @ [GetLineItem tok line_item_id]" cs]
      by simp
  qed
  show ?thesis
    by (simp add: rest_line_items_loop_append [of http tok dn as1] skip
        del: rest_line_items_loop.simps split: sum.splits)
qed

lemma failed_deal_contributes_nothing:
  assumes "subscript d ''id'' = Inr deal_id"
    and "authorized_call http tok (GetDeal tok deal_id) = Inr deal_answer"
    and "authorized_call http tok (GetDealLineItems tok deal_id) = Inr items_answer"
    and "status_code deal_answer \<noteq> 200
         \<or> (body deal_answer = Some (JObj kvs)
            \<and> (map_of kvs ''properties'' = None \<or> map_of kvs ''properties'' = Some (JObj ps))
            \<and> status_code items_answer \<noteq> 200)"
  shows "fst (rest_deal http tok d items calls) = Inr items"
  using assms
  by (auto simp add: rest_deal_def Let_def response_json_def get_then_def)

text \<open>
  Claim C7. A deal whose detail call, or whose line-item association call, is answered
  with a status other than 200 is skipped and nothing else: the traversal over a list of
  deals that contains it returns what the traversal over the other deals returns, and so
  does \<open>get_company_line_items_rest\<close> when the company's deal list contains it. In the
  same way a line item whose call is answered with a status other than 200 is skipped among
  the line items of its deal. The witness is the company with two deals: the result is the
  one record of deal B.
\<close>

theorem failed_deal_is_skipped:
  assumes "subscript d ''id'' = Inr deal_id"
    and "authorized_call http tok (GetDeal tok deal_id) = Inr deal_answer"
    and "authorized_call http tok (GetDealLineItems tok deal_id) = Inr items_answer"
    and "status_code deal_answer \<noteq> 200
         \<or> (body deal_answer = Some (JObj kvs)
            \<and> (map_of kvs ''properties'' = None \<or> map_of kvs ''properties'' = Some (JObj ps))
            \<and> status_code items_answer \<noteq> 200)"
  shows "fst (rest_deals_loop http tok (pre @ d # post) items calls)
           = fst (rest_deals_loop http tok (pre @ post) items calls)
         \<and> (authorized_call http tok (GetCompanyDeals tok company_id) = Inr deals_answer
              \<and> status_code deals_answer = 200
              \<and> body deals_answer = Some (JObj rs)
              \<and> map_of rs ''results'' = Some (JArr (pre @ d # post))
            \<longrightarrow> fst (get_company_line_items_rest http tok company_id)
                  = fst (rest_deals_loop http tok (pre @ post) [] []))
         \<and> (subscript a ''id'' = Inr line_item_id
              \<and> authorized_call http tok (GetLineItem tok line_item_id) = Inr item_answer
              \<and> status_code item_answer \<noteq> 200
            \<longrightarrow> fst (rest_line_items_loop http tok dn (pre' @ a # post') items' calls')
                  = fst (rest_line_items_loop http tok dn (pre' @ post') items' calls'))"
proof -
  have skip: "fst (rest_deals_loop http tok (d # post) its cs)
                = fst (rest_deals_loop http tok post its cs)" for its cs
  proof -
    obtain c where "rest_deal http tok d its cs = (Inr its, c)"
      using failed_deal_contributes_nothing [OF assms, of its cs]
      by (cases "rest_deal http tok d its cs") simp
    then show ?thesis
      using rest_deals_loop_result [of http tok post its c cs] by simp
  qed
  have loop: "fst (rest_deals_loop http tok (pre @ d # post) its cs)
           = fst (rest_deals_loop http tok (pre @ post) its cs)" for its cs
    by (simp add: rest_deals_loop_append [of http tok pre] skip del: rest_deals_loop.simps
        split: sum.splits)
  have top: "fst (get_company_line_items_rest http tok company_id)
                  = fst (rest_deals_loop http tok (pre @ post) [] [])"
    if "authorized_call http tok (GetCompanyDeals tok company_id) = Inr deals_answer"
      and "status_code deals_answer = 200"
      and "body deals_answer = Some (JObj rs)"
      and "map_of rs ''results'' = Some (JArr (pre @ d # post))"
    using that loop [of "[]" "[GetCompanyDeals tok company_id]"]
      rest_deals_loop_result [of http tok "pre @ post" "[]" "[GetCompanyDeals tok company_id]" "[]"]
    by (simp add: get_company_line_items_rest_def response_json_def)
  from loop top
    failed_line_item_is_skipped [of a line_item_id http tok item_answer dn pre' post' items' calls']
  show ?thesis by blast
qed

lemma two_deals_rest:
  "get_company_line_items_rest two_deals_upstream (JStr ''t'') ''c1''
     = (Inr [\<lparr>deal_name = JStr ''Deal B'', line_item_name = JStr ''Widget'',
              quantity = JStr ''2'', unit_price = JStr ''10'', amount = JStr ''20''\<rparr>],
        [GetCompanyDeals (JStr ''t'') ''c1'', GetDeal (JStr ''t'') (JStr ''A''),
         GetDealLineItems (JStr ''t'') (JStr ''A''), GetDeal (JStr ''t'') (JStr ''B''),
         GetDealLineItems (JStr ''t'') (JStr ''B''), GetLineItem (JStr ''t'') (JStr ''L1'')])"
  by (simp add: get_company_line_items_rest_def authorized_call_def header_value_ok_def
      response_json_def rest_deal_def
      rest_line_item_def rest_record_def get_then_def)

theorem failed_deal_is_skipped_witness:
  "subscript (JObj [(''id'', JStr ''A'')]) ''id'' = Inr (JStr ''A'')
   \<and> authorized_call two_deals_upstream (JStr ''t'') (GetDeal (JStr ''t'') (JStr ''A''))
      = Inr \<lparr>status_code = 200,
             body = Some (JObj [(''id'', JStr ''A''),
                                (''properties'', JObj [(''dealname'', JStr ''Deal A'')])])\<rparr>
   \<and> authorized_call two_deals_upstream (JStr ''t'') (GetDealLineItems (JStr ''t'') (JStr ''A''))
      = Inr \<lparr>status_code = 500, body = None\<rparr>
   \<and> authorized_call two_deals_upstream (JStr ''t'') (GetCompanyDeals (JStr ''t'') ''c1'')
      = Inr \<lparr>status_code = 200,
             body = Some (JObj [(''results'', JArr ([] @ JObj [(''id'', JStr ''A'')]
                                                    # [JObj [(''id'', JStr ''B'')]]))])\<rparr>
   \<and> fst (get_company_line_items_rest two_deals_upstream (JStr ''t'') ''c1'')
      = fst (rest_deals_loop two_deals_upstream (JStr ''t'') [JObj [(''id'', JStr ''B'')]] [] [])
   \<and> fst (get_company_line_items_rest two_deals_upstream (JStr ''t'') ''c1'')
      = Inr [\<lparr>deal_name = JStr ''Deal B'', line_item_name = JStr ''Widget'',
              quantity = JStr ''2'', unit_price = JStr ''10'', amount = JStr ''20''\<rparr>]
   \<and> fst (fetch_line_items two_deals_upstream (JStr ''t'') ''c1'')
      = Inr [\<lparr>deal_name = JStr ''Deal B'', line_item_name = JStr ''Widget'',
              quantity = JStr ''2'', unit_price = JStr ''10'', amount = JStr ''20''\<rparr>]
   \<and> authorized_call two_deals_upstream (JStr ''t'') (GetLineItem (JStr ''t'') (JStr ''L9''))
      = Inr \<lparr>status_code = 404, body = None\<rparr>
   \<and> fst (rest_line_items_loop two_deals_upstream (JStr ''t'') (JStr ''Deal B'')
             [JObj [(''id'', JStr ''L9'')], JObj [(''id'', JStr ''L1'')]] [] [])
      = fst (rest_line_items_loop two_deals_upstream (JStr ''t'') (JStr ''Deal B'')
             [JObj [(''id'', JStr ''L1'')]] [] [])"
proof -
  have ok: "header_value_ok (JStr ''t'')" by (simp add: header_value_ok_def)
  have f: "fst (fetch_line_items two_deals_upstream (JStr ''t'') ''c1'')
             = fst (get_company_line_items_rest two_deals_upstream (JStr ''t'') ''c1'')"
    by (simp add: fetch_line_items_def get_company_line_items_graphql_def
        authorized_call_sent [OF ok] split: prod.splits)
  have h: "subscript (JObj [(''id'', JStr ''A'')]) ''id'' = Inr (JStr ''A'')"
    "authorized_call two_deals_upstream (JStr ''t'') (GetDeal (JStr ''t'') (JStr ''A''))
      = Inr \<lparr>status_code = 200,
             body = Some (JObj [(''id'', JStr ''A''),
                                (''properties'', JObj [(''dealname'', JStr ''Deal A'')])])\<rparr>"
    "authorized_call two_deals_upstream (JStr ''t'') (GetDealLineItems (JStr ''t'') (JStr ''A''))
      = Inr \<lparr>status_code = 500, body = None\<rparr>"
    "authorized_call two_deals_upstream (JStr ''t'') (GetCompanyDeals (JStr ''t'') ''c1'')
      = Inr \<lparr>status_code = 200,
             body = Some (JObj [(''results'', JArr ([] @ JObj [(''id'', JStr ''A'')]
                                                    # [JObj [(''id'', JStr ''B'')]]))])\<rparr>"
    "authorized_call two_deals_upstream (JStr ''t'') (GetLineItem (JStr ''t'') (JStr ''L9''))
      = Inr \<lparr>status_code = 404, body = None\<rparr>"
    "subscript (JObj [(''id'', JStr ''L9'')]) ''id'' = Inr (JStr ''L9'')"
    by (simp_all add: authorized_call_sent [OF ok])
  note t = failed_deal_is_skipped
        [where d = "JObj [(''id'', JStr ''A'')]" and deal_id = "JStr ''A''"
          and http = two_deals_upstream and tok = "JStr ''t''"
          and deal_answer = "\<lparr>status_code = 200,
             body = Some (JObj [(''id'', JStr ''A''),
                                (''properties'', JObj [(''dealname'', JStr ''Deal A'')])])\<rparr>"
          and items_answer = "\<lparr>status_code = 500, body = None\<rparr>"
          and kvs = "[(''id'', JStr ''A''),
                      (''properties'', JObj [(''dealname'', JStr ''Deal A'')])]"
          and ps = "[(''dealname'', JStr ''Deal A'')]"
          and pre = "[]" and post = "[JObj [(''id'', JStr ''B'')]]"
          and company_id = "''c1''"
          and deals_answer = "\<lparr>status_code = 200,
             body = Some (JObj [(''results'', JArr ([] @ JObj [(''id'', JStr ''A'')]
                                                    # [JObj [(''id'', JStr ''B'')]]))])\<rparr>"
          and rs = "[(''results'', JArr [JObj [(''id'', JStr ''A'')],
                                              JObj [(''id'', JStr ''B'')]])]"
          and items = "[]" and calls = "[]"
          and a = "JObj [(''id'', JStr ''L9'')]" and line_item_id = "JStr ''L9''"
          and item_answer = "\<lparr>status_code = 404, body = None\<rparr>"
          and dn = "JStr ''Deal B''" and pre' = "[]" and post' = "[JObj [(''id'', JStr ''L1'')]]"
          and items' = "[]" and calls' = "[]", OF h(1) h(2) h(3)]
  have top: "fst (get_company_line_items_rest two_deals_upstream (JStr ''t'') ''c1'')
      = fst (rest_deals_loop two_deals_upstream (JStr ''t'') [JObj [(''id'', JStr ''B'')]] [] [])"
    using t h(4) by simp
  have li: "fst (rest_line_items_loop two_deals_upstream (JStr ''t'') (JStr ''Deal B'')
             [JObj [(''id'', JStr ''L9'')], JObj [(''id'', JStr ''L1'')]] [] [])
      = fst (rest_line_items_loop two_deals_upstream (JStr ''t'') (JStr ''Deal B'')
             [JObj [(''id'', JStr ''L1'')]] [] [])"
    using t h(5) h(6) by simp
  from f two_deals_rest h top li show ?thesis by simp
qed

subsection \<open>Normalization\<close>

text \<open>The two strategies build the record of a line item in the same way.\<close>

lemma record_strategies_agree: "graphql_record dn li = rest_record dn li"
  by (simp add: graphql_record_def rest_record_def)

lemma line_items_agree:
  assumes "serves_line_items http tok lis"
  shows "fst (rest_line_items_loop http tok dn (map (\<lambda>i. JObj [(''id'', i)]) (map fst lis))
               items calls)
           = graphql_line_items_loop dn (map (\<lambda>l. with_properties (fst l) (snd l)) lis) items"
  using assms
proof (induction lis arbitrary: items calls)
  case Nil
  show ?case by simp
next
  case (Cons l lis)
  from Cons.prems have h: "authorized_call http tok (GetLineItem tok (fst l))
      = Inr \<lparr>status_code = 200, body = Some (with_properties (fst l) (snd l))\<rparr>"
    and rest: "serves_line_items http tok lis"
    by (simp_all add: serves_line_items_def)
  show ?case
  proof (cases "rest_record dn (with_properties (fst l) (snd l))")
    case (Inl e)
    with h show ?thesis
      by (simp add: rest_line_item_def response_json_def record_strategies_agree)
  next
    case (Inr r)
    with h Cons.IH [OF rest, of "items @ [r]"] show ?thesis
      by (simp add: rest_line_item_def response_json_def record_strategies_agree)
  qed
qed

lemma deal_node_properties:
  "dict_get (graphql_deal_node (i, p, lis)) ''properties'' (JObj [])
     = dict_get (with_properties i p) ''properties'' (JObj [])"
  by (cases p) (simp_all add: graphql_deal_node_def with_properties_def)

lemma deal_node_items:
  "get_then (get_then (dict_get (graphql_deal_node (i, p, lis)) ''associations'' (JObj []))
               ''lineItems'' (JObj [])) ''items'' (JArr [])
     = Inr (JArr (map (\<lambda>l. with_properties (fst l) (snd l)) lis))"
  by (cases p) (simp_all add: graphql_deal_node_def get_then_def)

lemma deal_agrees:
  assumes "serves_deal http tok (i, p, lis)"
  shows "fst (rest_deal http tok (JObj [(''id'', i)]) items calls)
           = graphql_deal (graphql_deal_node (i, p, lis)) items"
proof -
  from assms have d: "authorized_call http tok (GetDeal tok i)
      = Inr \<lparr>status_code = 200, body = Some (with_properties i p)\<rparr>"
    and a: "authorized_call http tok (GetDealLineItems tok i)
      = Inr \<lparr>status_code = 200, body = Some (association_list (map fst lis))\<rparr>"
    and l: "serves_line_items http tok lis"
    by (simp_all add: serves_deal_def)
  show ?thesis
  proof (cases "get_then (dict_get (with_properties i p) ''properties'' (JObj []))
                  ''dealname'' (JStr ''Unknown Deal'')")
    case (Inl e)
    with d show ?thesis
      by (simp add: rest_deal_def graphql_deal_def response_json_def deal_node_properties)
  next
    case (Inr dn)
    with d a line_items_agree [OF l, of dn items] show ?thesis
      by (simp add: rest_deal_def graphql_deal_def response_json_def deal_node_properties
          deal_node_items association_list_def)
  qed
qed

lemma deals_agree:
  assumes "list_all (serves_deal http tok) deals"
  shows "fst (rest_deals_loop http tok (map (\<lambda>i. JObj [(''id'', i)]) (map fst deals))
               items calls)
           = graphql_deals_loop (map graphql_deal_node deals) items"
  using assms
proof (induction deals arbitrary: items calls)
  case Nil
  show ?case by simp
next
  case (Cons d deals)
  obtain i p lis where d: "d = (i, p, lis)" by (cases d)
  from Cons.prems d have sd: "serves_deal http tok (i, p, lis)"
    and rest: "list_all (serves_deal http tok) deals" by simp_all
  obtain r c where s: "rest_deal http tok (JObj [(''id'', i)]) items calls = (r, c)"
    by (cases "rest_deal http tok (JObj [(''id'', i)]) items calls")
  with deal_agrees [OF sd, of items calls]
  have g: "graphql_deal (graphql_deal_node (i, p, lis)) items = r" by simp
  show ?case
  proof (cases r)
    case (Inl e)
    with s g d show ?thesis by simp
  next
    case (Inr items')
    with s g d Cons.IH [OF rest, of items' c] show ?thesis by simp
  qed
qed

lemma graphql_record_canonical:
  assumes "plain_properties lp"
  shows "graphql_record (field_or p ''dealname'' (JStr ''Unknown Deal'')) (with_properties li lp)
           = Inr (canonical_record p lp)"
  using assms
  by (cases lp rule: plain_properties.cases)
     (simp_all add: graphql_record_def with_properties_def canonical_record_def field_or_def)

lemma graphql_line_items_canonical:
  assumes "list_all (\<lambda>l. plain_properties (snd l)) lis"
  shows "graphql_line_items_loop (field_or p ''dealname'' (JStr ''Unknown Deal''))
           (map (\<lambda>l. with_properties (fst l) (snd l)) lis) items
           = Inr (items @ map (\<lambda>l. canonical_record p (snd l)) lis)"
  using assms
  by (induction lis arbitrary: items) (simp_all add: graphql_record_canonical)

lemma deal_name_canonical:
  assumes "plain_properties p"
  shows "get_then (dict_get (with_properties i p) ''properties'' (JObj []))
           ''dealname'' (JStr ''Unknown Deal'')
           = Inr (field_or p ''dealname'' (JStr ''Unknown Deal''))"
  using assms
  by (cases p rule: plain_properties.cases)
     (simp_all add: with_properties_def get_then_def field_or_def)

lemma graphql_deal_canonical:
  assumes "plain_deal d"
  shows "graphql_deal (graphql_deal_node d) items = Inr (items @ canonical_records d)"
proof -
  obtain i p lis where d: "d = (i, p, lis)" by (cases d)
  with assms have pp: "plain_properties p"
    and pl: "list_all (\<lambda>l. plain_properties (snd l)) lis"
    by (simp_all add: plain_deal_def)
  show ?thesis
    unfolding d
    by (simp add: graphql_deal_def deal_node_properties deal_node_items
        deal_name_canonical [OF pp] graphql_line_items_canonical [OF pl] canonical_records_def)
qed

lemma graphql_deals_canonical:
  assumes "list_all plain_deal deals"
  shows "graphql_deals_loop (map graphql_deal_node deals) items
           = Inr (items @ concat (map canonical_records deals))"
  using assms
  by (induction deals arbitrary: items) (simp_all add: graphql_deal_canonical)

lemma graphql_served:
  assumes "serves_graphql http tok company_id deals"
  shows "fst (get_company_line_items_graphql http tok company_id)
           = (case graphql_deals_loop (map graphql_deal_node deals) [] of
                Inl e \<Rightarrow> Inl e
              | Inr items \<Rightarrow> Inr (Some items))"
  using assms
  by (simp add: serves_graphql_def get_company_line_items_graphql_def response_json_def
      graphql_body_def graphql_process_def get_then_def split: sum.splits)

lemma rest_served:
  assumes "serves_rest http tok company_id deals"
  shows "fst (get_company_line_items_rest http tok company_id)
           = graphql_deals_loop (map graphql_deal_node deals) []"
proof -
  from assms have c: "authorized_call http tok (GetCompanyDeals tok company_id)
        = Inr \<lparr>status_code = 200, body = Some (association_list (map fst deals))\<rparr>"
    and ds: "list_all (serves_deal http tok) deals"
    by (simp_all add: serves_rest_def)
  show ?thesis
    using c deals_agree [OF ds, of "[]" "[GetCompanyDeals tok company_id]"]
    by (simp add: get_company_line_items_rest_def response_json_def association_list_def)
qed

text \<open>
  Claim C9. When the upstream presents the same data to both strategies, they return the
  same: the same list of records, or the same exception. When the properties are plain,
  both return the canonical records of the specification, in order: every field that the
  upstream omits has its default (\<open>Unknown Deal\<close>, \<open>Unknown Item\<close>, 0), and nothing in a
  record tells which strategy produced it.
\<close>

theorem strategies_emit_equal_records:
  assumes "serves_graphql http tok company_id deals"
    and "serves_rest http tok company_id deals"
  shows "(case fst (get_company_line_items_rest http tok company_id) of
            Inl e \<Rightarrow> fst (get_company_line_items_graphql http tok company_id) = Inl e
          | Inr items \<Rightarrow>
              fst (get_company_line_items_graphql http tok company_id) = Inr (Some items))
         \<and> (list_all plain_deal deals
            \<longrightarrow> fst (get_company_line_items_rest http tok company_id)
                  = Inr (concat (map canonical_records deals))
                \<and> fst (get_company_line_items_graphql http tok company_id)
                  = Inr (Some (concat (map canonical_records deals))))"
  using graphql_served [OF assms(1)] rest_served [OF assms(2)]
    graphql_deals_canonical [of deals "[]"]
  by (auto split: sum.splits)

theorem strategies_emit_equal_records_witness:
  "serves_graphql example_deals_upstream (JStr ''t'') ''c1'' example_deals
   \<and> serves_rest example_deals_upstream (JStr ''t'') ''c1'' example_deals
   \<and> list_all plain_deal example_deals
   \<and> fst (get_company_line_items_rest example_deals_upstream (JStr ''t'') ''c1'')
      = Inr [\<lparr>deal_name = JStr ''Unknown Deal'', line_item_name = JStr ''Unknown Item'',
              quantity = JNum 0, unit_price = JNum 0, amount = JNum 0\<rparr>,
             \<lparr>deal_name = JStr ''Renewal'', line_item_name = JStr ''Seat'',
              quantity = JNum 3, unit_price = JNum 0, amount = JNum 0\<rparr>]
   \<and> fst (get_company_line_items_graphql example_deals_upstream (JStr ''t'') ''c1'')
      = Inr (Some [\<lparr>deal_name = JStr ''Unknown Deal'', line_item_name = JStr ''Unknown Item'',
              quantity = JNum 0, unit_price = JNum 0, amount = JNum 0\<rparr>,
             \<lparr>deal_name = JStr ''Renewal'', line_item_name = JStr ''Seat'',
              quantity = JNum 3, unit_price = JNum 0, amount = JNum 0\<rparr>])"
proof -
  have g: "serves_graphql example_deals_upstream (JStr ''t'') ''c1'' example_deals"
    by (simp add: serves_graphql_def authorized_call_def header_value_ok_def)
  have r: "serves_rest example_deals_upstream (JStr ''t'') ''c1'' example_deals"
    by (simp add: serves_rest_def serves_deal_def serves_line_items_def example_deals_def
        with_properties_def authorized_call_def header_value_ok_def)
  have p: "list_all plain_deal example_deals"
    by (simp add: example_deals_def plain_deal_def)
  have c: "concat (map canonical_records example_deals)
      = [\<lparr>deal_name = JStr ''Unknown Deal'', line_item_name = JStr ''Unknown Item'',
              quantity = JNum 0, unit_price = JNum 0, amount = JNum 0\<rparr>,
             \<lparr>deal_name = JStr ''Renewal'', line_item_name = JStr ''Seat'',
              quantity = JNum 3, unit_price = JNum 0, amount = JNum 0\<rparr>]"
    by (simp add: example_deals_def canonical_records_def canonical_record_def field_or_def)
  from strategies_emit_equal_records [OF g r] g r p c show ?thesis by simp
qed

subsection \<open>Totality of the retrieval\<close>

text \<open>A body of the expected shape is read without an exception.\<close>

lemma dict_get_shape:
  assumes "optional_field P k j" and "P dflt"
  shows "\<exists>v. dict_get j k dflt = Inr v \<and> P v"
  using assms by (cases j) (auto split: option.splits)

lemma get_then_shape:
  assumes "r = Inr j" and "optional_field P k j" and "P dflt"
  shows "\<exists>v. get_then r k dflt = Inr v \<and> P v"
  using assms dict_get_shape [of P k j dflt] by (simp add: get_then_def)

lemma optional_field_empty [simp]: "optional_field P k (JObj [])"
  by simp

lemma list_of_empty [simp]: "list_of P (JArr [])"
  by simp

lemma list_of_iterate:
  assumes "list_of P j"
  shows "\<exists>xs. iterate j = Inr xs \<and> list_all P xs"
  using assms by (cases j) simp_all

lemma is_dict_gets: "is_dict j \<Longrightarrow> \<exists>v. dict_get j k dflt = Inr v"
  by (cases j) simp_all

lemma graphql_record_shape:
  assumes "object_shape li"
  shows "\<exists>r. graphql_record dn li = Inr r"
proof -
  from assms obtain props where p: "dict_get li ''properties'' (JObj []) = Inr props"
    and d: "is_dict props"
    using dict_get_shape [of is_dict "''properties''" li "JObj []"]
    by (auto simp add: object_shape_def)
  from d obtain ps where "props = JObj ps" by (cases props) simp_all
  with p show ?thesis by (simp add: graphql_record_def)
qed

lemma graphql_line_items_loop_shape:
  assumes "list_all object_shape lis"
  shows "\<exists>r. graphql_line_items_loop dn lis items = Inr r"
  using assms
proof (induction lis arbitrary: items)
  case Nil
  show ?case by simp
next
  case (Cons li lis)
  from Cons.prems obtain r where "graphql_record dn li = Inr r"
    using graphql_record_shape [of li dn] by auto
  with Cons.prems Cons.IH [of "items @ [r]"] show ?case by simp
qed

lemma deal_name_shape:
  assumes "optional_field is_dict ''properties'' d"
  shows "\<exists>dn. get_then (dict_get d ''properties'' (JObj [])) ''dealname'' (JStr ''Unknown Deal'')
               = Inr dn"
proof -
  from assms obtain props where p: "dict_get d ''properties'' (JObj []) = Inr props"
    and "is_dict props"
    using dict_get_shape [of is_dict "''properties''" d "JObj []"] by auto
  then show ?thesis using is_dict_gets [of props] by (simp add: get_then_def)
qed

lemma graphql_deal_shape:
  assumes "deal_node_shape d"
  shows "\<exists>r. graphql_deal d items = Inr r"
proof -
  from assms obtain dn where dn: "get_then (dict_get d ''properties'' (JObj [])) ''dealname''
      (JStr ''Unknown Deal'') = Inr dn"
    using deal_name_shape [of d] by (auto simp add: deal_node_shape_def)
  from assms obtain a where a: "dict_get d ''associations'' (JObj []) = Inr a"
    and sa: "optional_field (optional_field (list_of object_shape) ''items'') ''lineItems'' a"
    using dict_get_shape
      [of "optional_field (optional_field (list_of object_shape) ''items'') ''lineItems''"
          "''associations''" d "JObj []"]
    by (auto simp add: deal_node_shape_def)
  from a sa obtain l where l: "get_then (dict_get d ''associations'' (JObj [])) ''lineItems''
      (JObj []) = Inr l"
    and sl: "optional_field (list_of object_shape) ''items'' l"
    using get_then_shape [OF a sa, of "JObj []"] by auto
  from l sl obtain its where i: "get_then (get_then (dict_get d ''associations'' (JObj []))
      ''lineItems'' (JObj [])) ''items'' (JArr []) = Inr its"
    and si: "list_of object_shape its"
    using get_then_shape [OF l sl, of "JArr []"] by auto
  from si obtain lis where it: "iterate its = Inr lis" and "list_all object_shape lis"
    using list_of_iterate by blast
  then obtain r where "graphql_line_items_loop dn lis items = Inr r"
    using graphql_line_items_loop_shape by blast
  with dn i it show ?thesis by (simp add: graphql_deal_def)
qed

lemma graphql_deals_loop_shape:
  assumes "list_all deal_node_shape ds"
  shows "\<exists>r. graphql_deals_loop ds items = Inr r"
  using assms
proof (induction ds arbitrary: items)
  case Nil
  show ?case by simp
next
  case (Cons d ds)
  from Cons.prems obtain r where "graphql_deal d items = Inr r"
    using graphql_deal_shape [of d items] by auto
  with Cons.prems Cons.IH [of r] show ?case by simp
qed

lemma graphql_process_shape:
  assumes "optional_field (optional_field (optional_field company_shape ''company'') ''CRM'')
             ''data'' j"
  shows "\<exists>r. graphql_process j = Inr r"
proof -
  have cs: "company_shape (JObj [])" by (simp add: company_shape_def)
  from assms obtain d where d: "dict_get j ''data'' (JObj []) = Inr d"
    and sd: "optional_field (optional_field company_shape ''company'') ''CRM'' d"
    using dict_get_shape
      [of "optional_field (optional_field company_shape ''company'') ''CRM''" "''data''" j
          "JObj []"]
    by auto
  from d sd obtain c where c: "get_then (dict_get j ''data'' (JObj [])) ''CRM'' (JObj []) = Inr c"
    and sc: "optional_field company_shape ''company'' c"
    using get_then_shape [OF d sd, of "JObj []"] by auto
  from c sc cs obtain co where co: "get_then (get_then (dict_get j ''data'' (JObj [])) ''CRM''
      (JObj [])) ''company'' (JObj []) = Inr co"
    and sco: "company_shape co"
    using get_then_shape [OF c sc, of "JObj []"] by auto
  from sco have sco': "optional_field
       (optional_field (optional_field (list_of deal_node_shape) ''items'') ''deals'')
       ''associations'' co" by (simp add: company_shape_def)
  from sco' obtain a where a: "dict_get co ''associations'' (JObj []) = Inr a"
    and sa: "optional_field (optional_field (list_of deal_node_shape) ''items'') ''deals'' a"
    using dict_get_shape
      [of "optional_field (optional_field (list_of deal_node_shape) ''items'') ''deals''"
          "''associations''" co "JObj []"]
    by auto
  from a sa obtain dl where dl: "get_then (dict_get co ''associations'' (JObj [])) ''deals''
      (JObj []) = Inr dl"
    and sdl: "optional_field (list_of deal_node_shape) ''items'' dl"
    using get_then_shape [OF a sa, of "JObj []"] by auto
  from dl sdl obtain its where i: "get_then (get_then (dict_get co ''associations'' (JObj []))
      ''deals'' (JObj [])) ''items'' (JArr []) = Inr its"
    and si: "list_of deal_node_shape its"
    using get_then_shape [OF dl sdl, of "JArr []"] by auto
  from si obtain ds where it: "iterate its = Inr ds" and "list_all deal_node_shape ds"
    using list_of_iterate by blast
  then obtain r where "graphql_deals_loop ds [] = Inr r"
    using graphql_deals_loop_shape by blast
  with co i it show ?thesis by (simp add: graphql_process_def)
qed

lemma well_shaped_body:
  assumes "well_shaped http" and "status_code (http r) = 200"
  obtains j where "body (http r) = Some j" and "expected_shape r j"
  using assms by (auto simp add: well_shaped_def split: option.splits)

lemma graphql_well_shaped:
  assumes "well_shaped http" and "header_value_ok tok"
  shows "\<exists>v. fst (get_company_line_items_graphql http tok company_id) = Inr v"
proof (cases "status_code (http (PostGraphQL tok company_id)) = 200")
  case False
  with assms(2) show ?thesis
    by (simp add: get_company_line_items_graphql_def authorized_call_def)
next
  case True
  with assms(1) obtain j where b: "body (http (PostGraphQL tok company_id)) = Some j"
    and s: "graphql_shape j"
    using well_shaped_body [of http "PostGraphQL tok company_id"] by auto
  from s obtain kvs where j: "j = JObj kvs" by (cases j) (simp_all add: graphql_shape_def)
  show ?thesis
  proof (cases "''errors'' \<in> set (map fst kvs)")
    case e: True
    then have "map_of kvs ''errors'' \<noteq> None" by (simp add: map_of_eq_None_iff)
    with e True b j assms(2) show ?thesis
      by (auto simp add: get_company_line_items_graphql_def authorized_call_def
          response_json_def)
  next
    case False
    with s j obtain r where "graphql_process j = Inr r"
      using graphql_process_shape [of j] by (auto simp add: graphql_shape_def)
    with False True b j assms(2) show ?thesis
      by (simp add: get_company_line_items_graphql_def authorized_call_def response_json_def)
  qed
qed

lemma has_id_subscript:
  assumes "has_id a"
  shows "\<exists>i. subscript a ''id'' = Inr i"
  using assms by (cases a) auto

lemma association_shape_results:
  assumes "association_shape j"
  shows "\<exists>res as. dict_get j ''results'' (JArr []) = Inr res \<and> iterate res = Inr as
           \<and> list_all has_id as"
proof -
  from assms obtain res where "dict_get j ''results'' (JArr []) = Inr res"
    and "list_of has_id res"
    using dict_get_shape [of "list_of has_id" "''results''" j "JArr []"]
    by (auto simp add: association_shape_def)
  then show ?thesis using list_of_iterate [of has_id res] by auto
qed

lemma rest_line_item_shape:
  assumes "well_shaped http" and "header_value_ok tok" and "has_id a"
  shows "\<exists>r. fst (rest_line_item http tok dn a items calls) = Inr r"
proof -
  from assms(3) obtain i where i: "subscript a ''id'' = Inr i"
    using has_id_subscript by blast
  note sent = authorized_call_sent [OF assms(2)]
  show ?thesis
  proof (cases "status_code (http (GetLineItem tok i)) = 200")
    case False
    with i show ?thesis by (simp add: rest_line_item_def sent)
  next
    case True
    with assms(1) obtain j where b: "body (http (GetLineItem tok i)) = Some j"
      and "object_shape j"
      using well_shaped_body [of http "GetLineItem tok i"] by auto
    then obtain r where "rest_record dn j = Inr r"
      using graphql_record_shape [of j dn] by (auto simp add: record_strategies_agree)
    with i True b show ?thesis by (simp add: rest_line_item_def response_json_def sent)
  qed
qed

lemma rest_line_items_loop_shape:
  assumes "well_shaped http" and "header_value_ok tok" and "list_all has_id as"
  shows "\<exists>r. fst (rest_line_items_loop http tok dn as items calls) = Inr r"
  using assms(3)
proof (induction as arbitrary: items calls)
  case Nil
  show ?case by simp
next
  case (Cons a as)
  from Cons.prems obtain r c where "rest_line_item http tok dn a items calls = (Inr r, c)"
    using rest_line_item_shape [OF assms(1,2), of a dn items calls]
    by (cases "rest_line_item http tok dn a items calls") auto
  with Cons.prems Cons.IH [of r c] show ?case by simp
qed

lemma rest_deal_shape:
  assumes "well_shaped http" and "header_value_ok tok" and "has_id d"
  shows "\<exists>r. fst (rest_deal http tok d items calls) = Inr r"
proof -
  from assms(3) obtain i where i: "subscript d ''id'' = Inr i"
    using has_id_subscript by blast
  note sent = authorized_call_sent [OF assms(2)]
  show ?thesis
  proof (cases "status_code (http (GetDeal tok i)) = 200")
    case False
    with i show ?thesis by (simp add: rest_deal_def sent)
  next
    case deal_ok: True
    with assms(1) obtain j where b: "body (http (GetDeal tok i)) = Some j"
      and "object_shape j"
      using well_shaped_body [of http "GetDeal tok i"] by auto
    then obtain dn where dn: "get_then (dict_get j ''properties'' (JObj [])) ''dealname''
        (JStr ''Unknown Deal'') = Inr dn"
      using deal_name_shape [of j] by (auto simp add: object_shape_def)
    show ?thesis
    proof (cases "status_code (http (GetDealLineItems tok i)) = 200")
      case False
      with i deal_ok b dn show ?thesis by (simp add: rest_deal_def response_json_def sent)
    next
      case True
      with assms(1) obtain l where lb: "body (http (GetDealLineItems tok i)) = Some l"
        and "association_shape l"
        using well_shaped_body [of http "GetDealLineItems tok i"] by auto
      then obtain res as where res: "dict_get l ''results'' (JArr []) = Inr res"
        and it: "iterate res = Inr as" and ids: "list_all has_id as"
        using association_shape_results by blast
      from rest_line_items_loop_shape [OF assms(1,2) ids]
      obtain r where "fst (rest_line_items_loop http tok dn as items
          ((calls @ [GetDeal tok i]) @ [GetDealLineItems tok i])) = Inr r"
        by blast
      with i deal_ok b dn True lb res it show ?thesis
        by (simp add: rest_deal_def response_json_def sent)
    qed
  qed
qed

lemma rest_deals_loop_shape:
  assumes "well_shaped http" and "header_value_ok tok" and "list_all has_id ds"
  shows "\<exists>r. fst (rest_deals_loop http tok ds items calls) = Inr r"
  using assms(3)
proof (induction ds arbitrary: items calls)
  case Nil
  show ?case by simp
next
  case (Cons d ds)
  from Cons.prems obtain r c where "rest_deal http tok d items calls = (Inr r, c)"
    using rest_deal_shape [OF assms(1,2), of d items calls]
    by (cases "rest_deal http tok d items calls") auto
  with Cons.prems Cons.IH [of r c] show ?case by simp
qed

lemma rest_well_shaped:
  assumes "well_shaped http" and "header_value_ok tok"
  shows "\<exists>r. fst (get_company_line_items_rest http tok company_id) = Inr r"
proof (cases "status_code (http (GetCompanyDeals tok company_id)) = 200")
  case False
  with assms(2) show ?thesis
    by (simp add: get_company_line_items_rest_def authorized_call_def)
next
  case True
  with assms(1) obtain j where b: "body (http (GetCompanyDeals tok company_id)) = Some j"
    and "association_shape j"
    using well_shaped_body [of http "GetCompanyDeals tok company_id"] by auto
  then obtain res ds where res: "dict_get j ''results'' (JArr []) = Inr res"
    and it: "iterate res = Inr ds" and ids: "list_all has_id ds"
    using association_shape_results by blast
  from rest_deals_loop_shape [OF assms ids]
  obtain r where "fst (rest_deals_loop http tok ds [] [GetCompanyDeals tok company_id]) = Inr r"
    by blast
  with True b res it assms(2) show ?thesis
    by (simp add: get_company_line_items_rest_def authorized_call_def response_json_def)
qed

lemma fetch_well_shaped:
  assumes "well_shaped http" and "header_value_ok tok"
  shows "\<exists>items. fst (fetch_line_items http tok company_id) = Inr items"
proof -
  obtain g c where g: "get_company_line_items_graphql http tok company_id = (g, c)"
    by (cases "get_company_line_items_graphql http tok company_id")
  with graphql_well_shaped [OF assms, of company_id] obtain v where v: "g = Inr v" by auto
  show ?thesis
  proof (cases v)
    case (Some items)
    with g v show ?thesis by (simp add: fetch_line_items_def)
  next
    case None
    with g v rest_well_shaped [OF assms, of company_id] show ?thesis
      by (auto simp add: fetch_line_items_def split: prod.splits)
  qed
qed

lemma accepted_request_reply:
  assumes "portal_id \<noteq> []"
    and "signature_accepted hmac_hex secret payload signature_header"
  shows "get_company_line_items http hmac_hex secret now now' storage (Some portal_id)
           signature_header payload company_id
           = line_items_reply http now now' storage portal_id company_id"
  using assms
  by (auto simp add: get_company_line_items_def signature_accepted_def)

lemma line_items_reply_usable:
  assumes "fst (get_hubspot_access_token http now now' storage portal_id) = Inr tok"
    and "truthy tok"
  shows "fst (line_items_reply http now now' storage portal_id company_id)
           = (case fst (fetch_line_items http tok company_id) of
                Inl e \<Rightarrow> Inr (Error ''Failed to fetch line items'', 500)
              | Inr items \<Rightarrow> Inr (LineItems company_id items, 200))"
proof -
  obtain st cs where "get_hubspot_access_token http now now' storage portal_id = (Inr tok, st, cs)"
    using assms(1) by (cases "get_hubspot_access_token http now now' storage portal_id") auto
  with assms(2) show ?thesis
    by (cases "fetch_line_items http tok company_id")
       (simp add: line_items_reply_def split: sum.splits)
qed

text \<open>
  Claim C8, as stated, fails: when the structured query is answered 200 with the body
  \<^verbatim>\<open>{"data": null}\<close>, the retrieval raises \<^verbatim>\<open>AttributeError\<close> instead of returning a
  list, and the route answers its caller with the error reply 500.
\<close>

theorem malformed_body_counterexample:
  "authorized_call null_data_upstream (JStr ''a1'') (PostGraphQL (JStr ''a1'') ''c1'')
     = Inr \<lparr>status_code = 200, body = Some (JObj [(''data'', JNull)])\<rparr>
   \<and> fetch_line_items null_data_upstream (JStr ''a1'') ''c1''
      = (Inl AttributeError, [PostGraphQL (JStr ''a1'') ''c1''])
   \<and> fst (get_company_line_items null_data_upstream no_hmac [] 900 900 example_store
            (Some ''42'') None [] ''c1'')
      = Inr (Error ''Failed to fetch line items'', 500)"
proof -
  have a: "authorized_call null_data_upstream (JStr ''a1'') (PostGraphQL (JStr ''a1'') ''c1'')
     = Inr \<lparr>status_code = 200, body = Some (JObj [(''data'', JNull)])\<rparr>"
    by (simp add: authorized_call_def header_value_ok_def null_data_upstream_def)
  have f: "fetch_line_items null_data_upstream (JStr ''a1'') ''c1''
      = (Inl AttributeError, [PostGraphQL (JStr ''a1'') ''c1''])"
    using a
    by (simp add: fetch_line_items_def get_company_line_items_graphql_def
        response_json_def graphql_process_def get_then_def)
  have t: "get_hubspot_access_token null_data_upstream 900 900 example_store ''42''
      = (Inr (JStr ''a1''), example_store, [])"
    by (simp add: get_hubspot_access_token_def example_store_def example_record_def)
  from a f t show ?thesis
    by (simp add: get_company_line_items_def line_items_reply_def)
qed

text \<open>
  Claim C8, amended. For every company id, every access token that can be sent in the
  authorization header and every combination of upstream statuses, the retrieval returns a
  list of line items whenever the upstream is well shaped. For every request that passes
  the portal and signature checks and whose token resolution gives a usable token, the
  route answers 200 with the list when the retrieval returns, and the error reply 500
  \<open>Failed to fetch line items\<close> when the retrieval raises.
\<close>

theorem fetch_total_on_expected_shapes:
  "(well_shaped http \<and> header_value_ok tok
      \<longrightarrow> (\<exists>items. fst (fetch_line_items http tok company_id) = Inr items))
   \<and> (portal_id \<noteq> [] \<and> signature_accepted hmac_hex secret payload signature_header
        \<and> fst (get_hubspot_access_token http now now' storage portal_id) = Inr tok'
        \<and> truthy tok'
      \<longrightarrow> fst (get_company_line_items http hmac_hex secret now now' storage
                 (Some portal_id) signature_header payload company_id)
            = (case fst (fetch_line_items http tok' company_id) of
                 Inl e \<Rightarrow> Inr (Error ''Failed to fetch line items'', 500)
               | Inr items \<Rightarrow> Inr (LineItems company_id items, 200)))"
proof -
  have route: "fst (get_company_line_items http hmac_hex secret now now' storage
                 (Some portal_id) signature_header payload company_id)
            = (case fst (fetch_line_items http tok' company_id) of
                 Inl e \<Rightarrow> Inr (Error ''Failed to fetch line items'', 500)
               | Inr items \<Rightarrow> Inr (LineItems company_id items, 200))"
    if "portal_id \<noteq> []" and "signature_accepted hmac_hex secret payload signature_header"
      and "fst (get_hubspot_access_token http now now' storage portal_id) = Inr tok'"
      and "truthy tok'"
    using accepted_request_reply [OF that(1,2)] line_items_reply_usable [OF that(3,4)]
    by simp
  from fetch_well_shaped [of http tok company_id] route show ?thesis by blast
qed

lemma two_deals_well_shaped: "well_shaped two_deals_upstream"
  unfolding well_shaped_def
proof (intro allI impI)
  fix r
  assume "status_code (two_deals_upstream r) = 200"
  then show "case body (two_deals_upstream r) of None \<Rightarrow> False | Some j \<Rightarrow> expected_shape r j"
    by (cases r) (simp_all add: object_shape_def association_shape_def split: if_splits)
qed

theorem fetch_total_on_expected_shapes_witness:
  "well_shaped two_deals_upstream \<and> header_value_ok (JStr ''a1'')
   \<and> (\<exists>items. fst (fetch_line_items two_deals_upstream (JStr ''a1'') ''c1'') = Inr items)
   \<and> ''42'' \<noteq> [] \<and> signature_accepted fixed_digest ''s3cret'' ''{}'' (Some ''5f2a'')
   \<and> fst (get_hubspot_access_token two_deals_upstream 900 900 example_store ''42'')
      = Inr (JStr ''a1'')
   \<and> truthy (JStr ''a1'')
   \<and> fst (get_company_line_items two_deals_upstream fixed_digest ''s3cret'' 900 900
            example_store (Some ''42'') (Some ''5f2a'') ''{}'' ''c1'')
      = Inr (LineItems ''c1''
               [\<lparr>deal_name = JStr ''Deal B'', line_item_name = JStr ''Widget'',
                 quantity = JStr ''2'', unit_price = JStr ''10'', amount = JStr ''20''\<rparr>], 200)
   \<and> fst (get_company_line_items null_data_upstream fixed_digest ''s3cret'' 900 900
            example_store (Some ''42'') (Some ''5f2a'') ''{}'' ''c1'')
      = Inr (Error ''Failed to fetch line items'', 500)"
proof -
  have ok: "header_value_ok (JStr ''a1'')" by (simp add: header_value_ok_def)
  have sig: "signature_accepted fixed_digest ''s3cret'' ''{}'' (Some ''5f2a'')"
    by (simp add: signature_accepted_def verify_hubspot_signature_def fixed_digest_def
        is_ascii_def)
  have tok: "fst (get_hubspot_access_token h 900 900 example_store ''42'') = Inr (JStr ''a1'')"
    for h :: upstream
    by (simp add: get_hubspot_access_token_def example_store_def example_record_def)
  have good: "fst (fetch_line_items two_deals_upstream (JStr ''a1'') ''c1'')
      = Inr [\<lparr>deal_name = JStr ''Deal B'', line_item_name = JStr ''Widget'',
              quantity = JStr ''2'', unit_price = JStr ''10'', amount = JStr ''20''\<rparr>]"
    by (simp add: fetch_line_items_def get_company_line_items_graphql_def
        get_company_line_items_rest_def authorized_call_sent [OF ok] response_json_def
        rest_deal_def rest_line_item_def rest_record_def get_then_def)
  have bad: "fst (fetch_line_items null_data_upstream (JStr ''a1'') ''c1'') = Inl AttributeError"
    by (simp add: fetch_line_items_def get_company_line_items_graphql_def
        authorized_call_sent [OF ok] null_data_upstream_def response_json_def
        graphql_process_def get_then_def)
  have a: "\<exists>items. fst (fetch_line_items two_deals_upstream (JStr ''a1'') ''c1'') = Inr items"
    using two_deals_well_shaped ok
      fetch_total_on_expected_shapes
        [where http = two_deals_upstream and tok = "JStr ''a1''" and company_id = "''c1''"
          and portal_id = "''42''" and storage = example_store and tok' = "JStr ''a1''"
          and now = 900 and now' = 900 and hmac_hex = fixed_digest
          and secret = "''s3cret''" and payload = "''{}''" and signature_header = "Some ''5f2a''"]
    by blast
  have b: "fst (get_company_line_items two_deals_upstream fixed_digest ''s3cret'' 900 900
            example_store (Some ''42'') (Some ''5f2a'') ''{}'' ''c1'')
      = Inr (LineItems ''c1''
               [\<lparr>deal_name = JStr ''Deal B'', line_item_name = JStr ''Widget'',
                 quantity = JStr ''2'', unit_price = JStr ''10'', amount = JStr ''20''\<rparr>], 200)"
    using sig tok [of two_deals_upstream] good
      fetch_total_on_expected_shapes
        [where http = two_deals_upstream and tok = "JStr ''a1''" and company_id = "''c1''"
          and portal_id = "''42''" and storage = example_store and tok' = "JStr ''a1''"
          and now = 900 and now' = 900 and hmac_hex = fixed_digest
          and secret = "''s3cret''" and payload = "''{}''" and signature_header = "Some ''5f2a''"]
    by simp
  have c: "fst (get_company_line_items null_data_upstream fixed_digest ''s3cret'' 900 900
            example_store (Some ''42'') (Some ''5f2a'') ''{}'' ''c1'')
      = Inr (Error ''Failed to fetch line items'', 500)"
    using sig tok [of null_data_upstream] bad
      fetch_total_on_expected_shapes
        [where http = null_data_upstream and tok = "JStr ''a1''" and company_id = "''c1''"
          and portal_id = "''42''" and storage = example_store and tok' = "JStr ''a1''"
          and now = 900 and now' = 900 and hmac_hex = fixed_digest
          and secret = "''s3cret''" and payload = "''{}''" and signature_header = "Some ''5f2a''"]
    by simp
  from two_deals_well_shaped ok a sig tok [of two_deals_upstream] b c show ?thesis by simp
qed

end
